theory Spec2Isabelle
  imports Main "HOL-Library.AList" "HOL-Library.Sublist"
begin

section \<open>JavaScript values\<close>

text \<open>
  The program (\<^verbatim>\<open>src/bin/cmplr.ts\<close>) reads \<^verbatim>\<open>tsconfig.json\<close> and \<^verbatim>\<open>package.json\<close>
  with \<^verbatim>\<open>JSON.parse\<close> and edits the value it gets. A \<open>json\<close> is such a value, as
  \<^verbatim>\<open>JSON.parse\<close> returns it. An object is the list of its properties in insertion order;
  reading a property is \<open>map_of\<close>, and the assignment \<^verbatim>\<open>o[k] = v\<close> is \<open>AList.update k v\<close>,
  which overwrites in place when the key is there and appends it otherwise, as a JavaScript
  object does for the keys this program writes (none of them is an array index). A string
  is a list of \<open>char\<close>, standing for the string's code units. The JavaScript value
  \<^verbatim>\<open>undefined\<close> is \<open>None\<close> of an option type.

  A number is the IEEE double that \<^verbatim>\<open>JSON.parse\<close> reads the literal as: the nearest double,
  so that \<^verbatim>\<open>9007199254740993\<close> is read as the double \<^verbatim>\<open>9007199254740992\<close>, a literal
  beyond the range of doubles such as \<^verbatim>\<open>1e400\<close> is read as \<^verbatim>\<open>Infinity\<close>, and \<^verbatim>\<open>-0\<close> as
  negative zero (\<^verbatim>\<open>NaN\<close> is never read). The program never computes with a number: it
  copies it and tests it for truth, so a finite double other than zero is a value of an
  unspecified type.
\<close>

typedecl finite_double

datatype jsnumber = PosZero | NegZero | Finite finite_double | PosInfinity | NegInfinity

datatype json =
    JNull
  | JBool bool
  | JNum jsnumber
  | JStr string
  | JArr "json list"
  | JObj "(string \<times> json) list"

type_synonym obj = "(string \<times> json) list"

text \<open>Truthiness of a value, as \<^verbatim>\<open>if (v)\<close>, \<^verbatim>\<open>!v\<close> and \<^verbatim>\<open>v || w\<close> test it.\<close>

fun truthy :: "json option \<Rightarrow> bool" where
  "truthy None = False"
| "truthy (Some JNull) = False"
| "truthy (Some (JBool b)) = b"
| "truthy (Some (JNum n)) = (n \<noteq> PosZero \<and> n \<noteq> NegZero)"
| "truthy (Some (JStr s)) = (s \<noteq> [])"
| "truthy (Some (JArr xs)) = True"
| "truthy (Some (JObj kvs)) = True"

text \<open>
  \<^verbatim>\<open>v?.k\<close>: the property \<open>k\<close> of \<open>v\<close>, and \<^verbatim>\<open>undefined\<close> when \<open>v\<close> is \<^verbatim>\<open>undefined\<close>
  or \<^verbatim>\<open>null\<close>. The program reads only the names \<^verbatim>\<open>compilerOptions\<close>, \<^verbatim>\<open>rootDir\<close>,
  \<^verbatim>\<open>experimentalDecorators\<close>, \<^verbatim>\<open>exclude\<close>, \<^verbatim>\<open>jsc\<close>, \<^verbatim>\<open>parser\<close>, \<^verbatim>\<open>decorators\<close>,
  \<^verbatim>\<open>target\<close>, \<^verbatim>\<open>loose\<close>, \<^verbatim>\<open>externalHelpers\<close>, \<^verbatim>\<open>sourceMaps\<close>, \<^verbatim>\<open>dependencies\<close>,
  \<^verbatim>\<open>devDependencies\<close>, \<^verbatim>\<open>typescript\<close> and \<^verbatim>\<open>files\<close> this way; no prototype of a string, an
  array, a number or a boolean has a member of one of these names, so only an object
  answers with a value.
\<close>

fun opt_prop :: "json option \<Rightarrow> string \<Rightarrow> json option" where
  "opt_prop (Some (JObj kvs)) k = map_of kvs k"
| "opt_prop _ k = None"

text \<open>\<^verbatim>\<open>a ?? b\<close> and \<^verbatim>\<open>a || b\<close>.\<close>

fun nullish_or :: "json option \<Rightarrow> json \<Rightarrow> json" where
  "nullish_or None d = d"
| "nullish_or (Some JNull) d = d"
| "nullish_or (Some v) d = v"

definition or_else :: "json option \<Rightarrow> json \<Rightarrow> json" where
  "or_else a d = (if truthy a then the a else d)"

text \<open>
  A template literal \<^verbatim>\<open>`${v}`\<close> of a value that is a string or \<^verbatim>\<open>undefined\<close>: the
  string itself, or the nine letters \<^verbatim>\<open>undefined\<close>.
\<close>

fun tpl :: "string option \<Rightarrow> string" where
  "tpl None = ''undefined''"
| "tpl (Some s) = s"

text \<open>
  Writing a value to a file is \<^verbatim>\<open>JSON.stringify\<close>; \<open>written v\<close> is the value
  \<^verbatim>\<open>JSON.parse\<close> reads from the text \<^verbatim>\<open>JSON.stringify\<close> writes for \<open>v\<close>. The text of a finite
  double reads back as the same double; negative zero is written \<^verbatim>\<open>0\<close>, and an infinite
  number is written \<^verbatim>\<open>null\<close>. Strings, booleans and \<^verbatim>\<open>null\<close> are written as they are,
  arrays and objects element by element.
\<close>

fun written_number :: "jsnumber \<Rightarrow> json" where
  "written_number PosZero = JNum PosZero"
| "written_number NegZero = JNum PosZero"
| "written_number (Finite d) = JNum (Finite d)"
| "written_number PosInfinity = JNull"
| "written_number NegInfinity = JNull"

primrec written :: "json \<Rightarrow> json" where
  "written JNull = JNull"
| "written (JBool b) = JBool b"
| "written (JNum n) = written_number n"
| "written (JStr s) = JStr s"
| "written (JArr xs) = JArr (map written xs)"
| "written (JObj kvs) = JObj (map (map_prod id written) kvs)"

definition written_obj :: "obj \<Rightarrow> obj" where
  "written_obj kvs = map (map_prod id written) kvs"

section \<open>Strings and paths\<close>

definition startsWith :: "string \<Rightarrow> string \<Rightarrow> bool" where
  "startsWith s p = prefix p s"

definition endsWith :: "string \<Rightarrow> string \<Rightarrow> bool" where
  "endsWith s p = suffix p s"

fun includes_str :: "string \<Rightarrow> string \<Rightarrow> bool" where
  "includes_str [] p = (p = [])"
| "includes_str (c # cs) p = (prefix p (c # cs) \<or> includes_str cs p)"

text \<open>
  \<^verbatim>\<open>path.parse(p).name\<close> is Node's, not this repository's. It is written here after the
  POSIX implementation in Node's \<^verbatim>\<open>lib/path.js\<close>: one scan of the path from its last
  character down to \<open>start\<close>, keeping the five variables of that loop, and then the choice
  of the slice. Indices are integers, since the loop uses \<open>-1\<close> for "not seen".
\<close>

record parse_state =
  startDot :: int
  startPart :: int
  end_pos :: int
  matchedSlash :: bool
  preDotState :: int

definition parse_init :: parse_state where
  "parse_init = \<lparr>startDot = -1, startPart = 0, end_pos = -1, matchedSlash = True,
     preDotState = 0\<rparr>"

text \<open>
  \<open>parse_scan p start n st\<close> runs the iterations \<open>i = start + n - 1\<close> down to \<open>start\<close>.
\<close>

fun parse_scan :: "string \<Rightarrow> nat \<Rightarrow> nat \<Rightarrow> parse_state \<Rightarrow> parse_state" where
  "parse_scan p start 0 st = st"
| "parse_scan p start (Suc n) st =
     (let i = start + n; code = p ! i in
      if code = CHR ''/'' then
        (if \<not> matchedSlash st then st\<lparr>startPart := int i + 1\<rparr>
         else parse_scan p start n st)
      else
        (let st1 = (if end_pos st = -1 then st\<lparr>end_pos := int i + 1, matchedSlash := False\<rparr>
                    else st);
             st2 = (if code = CHR ''.'' then
                      (if startDot st1 = -1 then st1\<lparr>startDot := int i\<rparr>
                       else if preDotState st1 \<noteq> 1 then st1\<lparr>preDotState := 1\<rparr>
                       else st1)
                    else if startDot st1 \<noteq> -1 then st1\<lparr>preDotState := -1\<rparr>
                    else st1)
         in parse_scan p start n st2))"

definition slice :: "string \<Rightarrow> int \<Rightarrow> int \<Rightarrow> string" where
  "slice p a b = take (nat b - nat a) (drop (nat a) p)"

definition path_parse_name :: "string \<Rightarrow> string" where
  "path_parse_name p =
     (if p = [] then []
      else
        (let isAbsolute = (p ! 0 = CHR ''/'');
             start = (if isAbsolute then 1 else 0);
             st = parse_scan p start (length p - start) parse_init
         in if end_pos st \<noteq> -1 then
              (let start' = (if startPart st = 0 \<and> isAbsolute then 1 else startPart st) in
               if startDot st = -1 \<or> preDotState st = 0 \<or>
                  (preDotState st = 1 \<and> startDot st = end_pos st - 1 \<and>
                   startDot st = startPart st + 1)
               then slice p start' (end_pos st)
               else slice p start' (startDot st))
            else []))"

section \<open>The world the program runs in\<close>

text \<open>
  What the program reads and writes: the entries it probes by the path it passes
  (\<^verbatim>\<open>fs.access\<close>, \<^verbatim>\<open>fs.readdir\<close>), the \<^verbatim>\<open>tsconfig.json\<close> and the \<^verbatim>\<open>package.json\<close> of the
  working directory, and the \<^verbatim>\<open>.temp\<close> directory of generated compiler configurations. A
  JSON file is held as the value \<^verbatim>\<open>JSON.parse\<close> reads from it, so writing \<open>v\<close> to a file
  leaves \<open>written v\<close> there. A \<^verbatim>\<open>package.json\<close> that exists holds a JSON object, as a
  manifest does. Console output is not modelled, and reads and writes of files that exist
  succeed.
\<close>

record dirent =
  d_name :: string
  d_isFile :: bool

datatype node = File | Dir "dirent list"

datatype tsfile = NoTsconfig | BadTsconfig | Tsconfig json

record world =
  fs :: "string \<Rightarrow> node option"
  tsconfig_file :: tsfile
  package_json :: "obj option"
  temp :: "obj option"

datatype error =
    UnknownOption string
  | SourceDirMissing json
  | NotADirectory string
  | InvalidArgType
  | CommandFailed string
  | RemoveFailed string
  | InstallFailed
  | TypeCheckFailed

text \<open>
  \<^verbatim>\<open>fileExists\<close> (lines 41-48): \<^verbatim>\<open>fs.access\<close> rejects for a path that is not there, and
  also for an argument that is not a string; both are caught and answered \<^verbatim>\<open>false\<close>.
\<close>

fun fileExists :: "world \<Rightarrow> json option \<Rightarrow> bool" where
  "fileExists w (Some (JStr p)) = (fs w p \<noteq> None)"
| "fileExists w _ = False"

text \<open>
  \<^verbatim>\<open>fs.readdir(srcDir, {withFileTypes: true})\<close> followed by
  \<^verbatim>\<open>.filter(d => d.isFile()).map(d => d.name)\<close>, for a path \<^verbatim>\<open>fileExists\<close> has accepted;
  reading a path that is not a directory rejects.
\<close>

fun list_files :: "world \<Rightarrow> json \<Rightarrow> error + string list" where
  "list_files w (JStr p) =
     (case fs w p of
        Some (Dir dirents) \<Rightarrow> Inr (map d_name (filter d_isFile dirents))
      | _ \<Rightarrow> Inl (NotADirectory p))"
| "list_files w v = Inl InvalidArgType"

section \<open>Argument parser (lines 104-165)\<close>

datatype command = Compile | Create

text \<open>The fields of \<^verbatim>\<open>CLIArgs\<close> (lines 28-39) carry the prefix \<open>cli_\<close>.\<close>

record CLIArgs =
  cli_command :: command
  cli_dryRun :: bool
  cli_help :: bool
  cli_version :: bool
  cli_srcDir :: "string option"
  cli_outDir :: "string option"
  cli_noTypes :: bool
  cli_typeCheck :: bool
  cli_projectName :: "string option"

text \<open>
  The loop over \<open>args\<close>. A flag that takes a value reads \<^verbatim>\<open>args[++i]\<close>: the next token,
  which the loop then skips, or \<^verbatim>\<open>undefined\<close> when the flag is the last token. An unknown
  \<^verbatim>\<open>--\<close> option ends the process with \<^verbatim>\<open>process.exit(1)\<close>.
\<close>

fun parse_flags :: "string list \<Rightarrow> CLIArgs \<Rightarrow> error + CLIArgs" where
  "parse_flags [] parsed = Inr parsed"
| "parse_flags (arg # rest) parsed =
     (if arg = ''--dry-run'' then parse_flags rest (parsed\<lparr>cli_dryRun := True\<rparr>)
      else if arg = ''--help'' \<or> arg = ''-h'' then parse_flags rest (parsed\<lparr>cli_help := True\<rparr>)
      else if arg = ''--version'' \<or> arg = ''-v'' then
        parse_flags rest (parsed\<lparr>cli_version := True\<rparr>)
      else if arg = ''--src-dir'' then
        (case rest of
           [] \<Rightarrow> Inr (parsed\<lparr>cli_srcDir := None\<rparr>)
         | v # rest' \<Rightarrow> parse_flags rest' (parsed\<lparr>cli_srcDir := Some v\<rparr>))
      else if arg = ''--out-dir'' then
        (case rest of
           [] \<Rightarrow> Inr (parsed\<lparr>cli_outDir := None\<rparr>)
         | v # rest' \<Rightarrow> parse_flags rest' (parsed\<lparr>cli_outDir := Some v\<rparr>))
      else if arg = ''--no-types'' then parse_flags rest (parsed\<lparr>cli_noTypes := True\<rparr>)
      else if arg = ''--type-check'' then parse_flags rest (parsed\<lparr>cli_typeCheck := True\<rparr>)
      else if startsWith arg ''--'' then Inl (UnknownOption arg)
      else parse_flags rest parsed)"

definition default_args :: CLIArgs where
  "default_args = \<lparr>cli_command = Compile, cli_dryRun = False, cli_help = False, cli_version = False,
     cli_srcDir = None, cli_outDir = Some ''dist'', cli_noTypes = False, cli_typeCheck = False,
     cli_projectName = None\<rparr>"

definition parseArgs :: "string list \<Rightarrow> error + CLIArgs" where
  "parseArgs args =
     (if length args > 0 \<and> \<not> startsWith (args ! 0) ''-'' \<and> args ! 0 = ''create'' then
        (let parsed = default_args\<lparr>cli_command := Create\<rparr>;
             parsed' = (if length args > 1 \<and> \<not> startsWith (args ! 1) ''-''
                        then parsed\<lparr>cli_projectName := Some (args ! 1)\<rparr> else parsed)
         in parse_flags
              (drop (if truthy (map_option JStr (cli_projectName parsed')) then 2 else 1) args)
              parsed')
      else parse_flags args default_args)"

section \<open>Source directory and entry points (lines 219-249, 315-338)\<close>

text \<open>\<^verbatim>\<open>readTSConfig\<close>: \<^verbatim>\<open>null\<close> when the file is missing or does not parse.\<close>

definition readTSConfig :: "world \<Rightarrow> json" where
  "readTSConfig w =
     (case tsconfig_file w of NoTsconfig \<Rightarrow> JNull | BadTsconfig \<Rightarrow> JNull | Tsconfig j \<Rightarrow> j)"

definition detectSourceDir :: "world \<Rightarrow> json \<Rightarrow> string option \<Rightarrow> json" where
  "detectSourceDir w tsconfig srcDirArg =
     (if truthy (map_option JStr srcDirArg) then JStr (the srcDirArg)
      else if truthy (opt_prop (opt_prop (Some tsconfig) ''compilerOptions'') ''rootDir'')
        then the (opt_prop (opt_prop (Some tsconfig) ''compilerOptions'') ''rootDir'')
      else if fileExists w (Some (JStr ''src'')) then JStr ''src''
      else if fileExists w (Some (JStr ''lib'')) then JStr ''lib''
      else if fileExists w (Some (JStr ''bin'')) then JStr ''bin''
      else JStr ''src'')"

text \<open>The filter of lines 324-329: the regular expression \<^verbatim>\<open>/\.(ts|tsx|js|jsx)$/\<close> and
  the two exclusions.\<close>

definition eligible :: "string \<Rightarrow> bool" where
  "eligible file \<longleftrightarrow>
     (endsWith file ''.ts'' \<or> endsWith file ''.tsx'' \<or> endsWith file ''.js'' \<or>
      endsWith file ''.jsx'') \<and>
     \<not> includes_str file ''.test.'' \<and> \<not> includes_str file ''.spec.''"

definition detectEntryPoints :: "world \<Rightarrow> json \<Rightarrow> error + string list" where
  "detectEntryPoints w srcDir =
     (if \<not> fileExists w (Some srcDir) then Inl (SourceDirMissing srcDir)
      else
        (case list_files w srcDir of
           Inl e \<Rightarrow> Inl e
         | Inr names \<Rightarrow>
             (let files = filter eligible names;
                  indexFile = find (\<lambda>file. startsWith file ''index.'') files
              in if truthy (map_option JStr indexFile) then Inr files else Inr files)))"

section \<open>Compiler configuration (lines 251-313)\<close>

text \<open>
  The object spread \<^verbatim>\<open>{...v}\<close> copies the own enumerable properties of \<open>v\<close>: the
  properties of an object, the elements of an array and the characters of a string under
  their indices, and nothing for \<^verbatim>\<open>undefined\<close>, \<^verbatim>\<open>null\<close>, a number or a boolean.
\<close>

fun dec :: "nat \<Rightarrow> string" where
  "dec n = (if n < 10 then [char_of (48 + n)] else dec (n div 10) @ [char_of (48 + n mod 10)])"

definition indexed :: "json list \<Rightarrow> obj" where
  "indexed xs = zip (map dec [0 ..< length xs]) xs"

fun spread :: "json option \<Rightarrow> obj" where
  "spread (Some (JObj kvs)) = kvs"
| "spread (Some (JArr xs)) = indexed xs"
| "spread (Some (JStr s)) = indexed (map (\<lambda>c. JStr [c]) s)"
| "spread _ = []"

datatype module_type = CommonJS | ES6

fun module_text :: "module_type \<Rightarrow> string" where
  "module_text CommonJS = ''commonjs''"
| "module_text ES6 = ''es6''"

text \<open>
  \<open>convert\<close> is the default export of the package \<^verbatim>\<open>tsconfig-swc\<close>, which is not part of
  this repository: it is a parameter, giving a configuration object or \<open>None\<close> when it
  throws.
\<close>

definition createSWCConfig ::
  "(json \<Rightarrow> obj option) \<Rightarrow> world \<Rightarrow> json \<Rightarrow> module_type \<Rightarrow> json \<Rightarrow> error + obj" where
  "createSWCConfig convert w tsconfig moduleType srcDir =
     (case (if fileExists w (Some srcDir) then list_files w srcDir else Inr []) of
        Inl e \<Rightarrow> Inl e
      | Inr files \<Rightarrow>
         (let hasTypeScript = list_ex (\<lambda>file. endsWith file ''.ts'' \<or> endsWith file ''.tsx'') files;
              hasTSX = list_ex (\<lambda>file. endsWith file ''.tsx'') files;
              hasJSX = list_ex (\<lambda>file. endsWith file ''.jsx'' \<or> endsWith file ''.tsx'') files;
              baseConfig = (if truthy (Some tsconfig)
                            then (case convert tsconfig of Some b \<Rightarrow> b | None \<Rightarrow> [])
                            else []);
              base_jsc = map_of baseConfig ''jsc'';
              parser =
                AList.update ''decorators''
                  (nullish_or (opt_prop (opt_prop base_jsc ''parser'') ''decorators'')
                     (or_else
                        (opt_prop (opt_prop (Some tsconfig) ''compilerOptions'')
                           ''experimentalDecorators'')
                        (JBool False)))
                 (AList.update ''jsx'' (JBool hasJSX)
                   (AList.update ''tsx'' (JBool hasTSX)
                     (AList.update ''syntax''
                        (JStr (if hasTypeScript then ''typescript'' else ''ecmascript''))
                        (spread (opt_prop base_jsc ''parser'')))));
              jsc =
                AList.update ''externalHelpers''
                  (nullish_or (opt_prop base_jsc ''externalHelpers'') (JBool False))
                 (AList.update ''loose'' (nullish_or (opt_prop base_jsc ''loose'') (JBool False))
                   (AList.update ''target'' (or_else (opt_prop base_jsc ''target'') (JStr ''es2020''))
                     (AList.update ''parser'' (JObj parser) (spread base_jsc))));
              config =
                AList.update ''sourceMaps''
                  (nullish_or (map_of baseConfig ''sourceMaps'') (JBool True))
                 (AList.update ''module'' (JObj [(''type'', JStr (module_text moduleType))])
                   (AList.update ''jsc'' (JObj jsc) baseConfig))
          in if truthy (opt_prop (Some tsconfig) ''exclude'')
             then Inr (AList.update ''exclude'' (the (opt_prop (Some tsconfig) ''exclude'')) config)
             else Inr config))"

section \<open>Manifest updater (lines 361-426)\<close>

definition cjs_path :: "string option \<Rightarrow> string \<Rightarrow> string" where
  "cjs_path outDir baseName = ''./'' @ tpl outDir @ ''/cjs/'' @ baseName @ ''.js''"

definition esm_path :: "string option \<Rightarrow> string \<Rightarrow> string" where
  "esm_path outDir baseName = ''./'' @ tpl outDir @ ''/esm/'' @ baseName @ ''.js''"

definition types_path :: "string option \<Rightarrow> string \<Rightarrow> string" where
  "types_path outDir baseName = ''./'' @ tpl outDir @ ''/types/'' @ baseName @ ''.d.ts''"

text \<open>The object literal of lines 384-388 and 395-399.\<close>

definition export_entry :: "string option \<Rightarrow> bool \<Rightarrow> string \<Rightarrow> json" where
  "export_entry outDir noTypes baseName =
     JObj ([(''import'', JStr (esm_path outDir baseName)),
            (''require'', JStr (cjs_path outDir baseName))] @
           (if noTypes then [] else [(''types'', JStr (types_path outDir baseName))]))"

definition exportKey :: "string \<Rightarrow> string" where
  "exportKey baseName = (if baseName = ''index'' then ''.'' else ''./'' @ baseName)"

text \<open>One step of the \<^verbatim>\<open>forEach\<close> of lines 392-400, on the export map.\<close>

definition add_export :: "string option \<Rightarrow> bool \<Rightarrow> string \<Rightarrow> obj \<Rightarrow> obj" where
  "add_export outDir noTypes entry exports =
     (let baseName = path_parse_name entry
      in AList.update (exportKey baseName) (export_entry outDir noTypes baseName) exports)"

text \<open>The assignments to \<^verbatim>\<open>main\<close>, \<^verbatim>\<open>module\<close> and \<^verbatim>\<open>types\<close> (lines 377-381, 405-409).\<close>

definition set_main :: "string option \<Rightarrow> bool \<Rightarrow> string \<Rightarrow> obj \<Rightarrow> obj" where
  "set_main outDir noTypes baseName packageJson =
     (let pj1 = AList.update ''main'' (JStr (cjs_path outDir baseName)) packageJson;
          pj2 = AList.update ''module'' (JStr (esm_path outDir baseName)) pj1
      in if \<not> noTypes then AList.update ''types'' (JStr (types_path outDir baseName)) pj2
         else pj2)"

text \<open>
  Lines 412-420. \<open>outDir\<close> is written as the JSON it serialises to: a string, or
  \<^verbatim>\<open>null\<close> for an \<^verbatim>\<open>undefined\<close> array element; \<^verbatim>\<open>includes\<close> finds a string among
  parsed values when an element is that string, and never finds \<^verbatim>\<open>undefined\<close>.
\<close>

fun outDir_json :: "string option \<Rightarrow> json" where
  "outDir_json None = JNull"
| "outDir_json (Some d) = JStr d"

fun array_includes :: "json list \<Rightarrow> string option \<Rightarrow> bool" where
  "array_includes xs None = False"
| "array_includes xs (Some d) = (JStr d \<in> set xs)"

definition set_files :: "string option \<Rightarrow> obj \<Rightarrow> obj" where
  "set_files outDir packageJson =
     (if \<not> truthy (map_of packageJson ''files'')
      then AList.update ''files'' (JArr [outDir_json outDir]) packageJson
      else
        (case map_of packageJson ''files'' of
           Some (JArr xs) \<Rightarrow>
             (if \<not> array_includes xs outDir
              then AList.update ''files'' (JArr (xs @ [outDir_json outDir])) packageJson
              else packageJson)
         | _ \<Rightarrow> packageJson))"

text \<open>
  The manifest object as it stands at line 422, from the parsed one of line 373.
  \<^verbatim>\<open>path.parse\<close> throws a \<^verbatim>\<open>TypeError\<close> on \<^verbatim>\<open>undefined\<close>, which is what
  \<^verbatim>\<open>entryPoints[0]\<close> is for the empty list.
\<close>

definition rewrite_manifest :: "string list \<Rightarrow> string option \<Rightarrow> bool \<Rightarrow> obj \<Rightarrow> error + obj" where
  "rewrite_manifest entryPoints outDir noTypes packageJson =
     (if length entryPoints = 1 \<and> startsWith (entryPoints ! 0) ''index.'' then
        (let baseName = path_parse_name (entryPoints ! 0);
             pj1 = set_main outDir noTypes baseName packageJson;
             pj2 = AList.update ''exports''
                     (JObj [(''.'', export_entry outDir noTypes baseName)]) pj1
         in Inr (set_files outDir pj2))
      else
        (let pj1 = AList.update ''exports''
                     (JObj (fold (add_export outDir noTypes) entryPoints [])) packageJson;
             mainEntry = (case find (\<lambda>e. startsWith e ''index.'') entryPoints of
                            Some e \<Rightarrow> Some e
                          | None \<Rightarrow> (case entryPoints of [] \<Rightarrow> None | e # _ \<Rightarrow> Some e))
         in case mainEntry of
              None \<Rightarrow> Inl InvalidArgType
            | Some e \<Rightarrow> Inr (set_files outDir (set_main outDir noTypes (path_parse_name e) pj1))))"

text \<open>
  A step of the run gives the error it threw, if any, and the world it leaves. The manifest
  is written with \<^verbatim>\<open>JSON.stringify\<close> at lines 422-425, after everything that can throw: a
  run of \<open>updatePackageJsonExports\<close> that throws leaves the world as it found it.
\<close>

type_synonym outcome = "error option \<times> world"

definition updatePackageJsonExports ::
  "string list \<Rightarrow> string option \<Rightarrow> bool \<Rightarrow> world \<Rightarrow> outcome" where
  "updatePackageJsonExports entryPoints outDir noTypes w =
     (case package_json w of
        None \<Rightarrow> (None, w)
      | Some packageJson \<Rightarrow>
          (case rewrite_manifest entryPoints outDir noTypes packageJson of
             Inl e \<Rightarrow> (Some e, w)
           | Inr packageJson' \<Rightarrow>
               (None, w\<lparr>package_json := Some (written_obj packageJson')\<rparr>)))"

section \<open>The compile run (lines 340-359, 50-102, 575-661)\<close>

text \<open>
  What the run asks of other programs is a parameter: the converter of \<^verbatim>\<open>tsconfig-swc\<close>,
  the recursive removal \<^verbatim>\<open>fs.rm\<close>, a shell command run by \<^verbatim>\<open>execSync\<close>, the installer
  \<^verbatim>\<open>@bredele/package-install\<close> and \<^verbatim>\<open>require.resolve("typescript")\<close>. Each effect answers
  whether it succeeded and gives the world it leaves. \<open>env_tempDir\<close> is the path
  \<^verbatim>\<open>path.join(__dirname, "../.temp")\<close>.
\<close>

record env =
  env_convert :: "json \<Rightarrow> obj option"
  env_rm :: "string \<Rightarrow> world \<Rightarrow> bool \<times> world"
  env_exec :: "string \<Rightarrow> world \<Rightarrow> bool \<times> world"
  env_install :: "string \<Rightarrow> bool \<Rightarrow> world \<Rightarrow> bool \<times> world"
  env_resolve :: "world \<Rightarrow> bool"
  env_tempDir :: string

definition createTempSWCConfig :: "env \<Rightarrow> obj \<Rightarrow> string \<Rightarrow> world \<Rightarrow> string \<times> world" where
  "createTempSWCConfig E config configName w =
     (let tempDir = (case temp w of None \<Rightarrow> [] | Some t \<Rightarrow> t)
      in (env_tempDir E @ ''/'' @ configName @ ''.swcrc'',
          w\<lparr>temp := Some (AList.update (configName @ ''.swcrc'') (written (JObj config))
                            tempDir)\<rparr>))"

definition cleanupTempConfigs :: "world \<Rightarrow> world" where
  "cleanupTempConfigs w = w\<lparr>temp := None\<rparr>"

definition and_then :: "outcome \<Rightarrow> (world \<Rightarrow> outcome) \<Rightarrow> outcome" where
  "and_then r k = (case r of (None, w) \<Rightarrow> k w | (Some e, w) \<Rightarrow> (Some e, w))"

text \<open>An effect of the environment that throws \<open>e\<close> when it fails.\<close>

definition attempt :: "error \<Rightarrow> bool \<times> world \<Rightarrow> outcome" where
  "attempt e r = (if fst r then (None, snd r) else (Some e, snd r))"

definition hasTypeScriptInstalled :: "env \<Rightarrow> world \<Rightarrow> bool" where
  "hasTypeScriptInstalled E w =
     (case package_json w of
        Some packageJson \<Rightarrow>
          (if truthy (opt_prop (map_of packageJson ''dependencies'') ''typescript'') \<or>
              truthy (opt_prop (map_of packageJson ''devDependencies'') ''typescript'')
           then True else env_resolve E w)
      | None \<Rightarrow> env_resolve E w)"

definition ensureTypeScriptInstalled :: "env \<Rightarrow> world \<Rightarrow> outcome" where
  "ensureTypeScriptInstalled E w =
     (if hasTypeScriptInstalled E w then (None, w)
      else attempt InstallFailed (env_install E ''typescript'' True w))"

text \<open>The text of a source directory in a command line; it is a string wherever the run
  gets that far, since \<open>detectEntryPoints\<close> has accepted it.\<close>

fun dir_text :: "json \<Rightarrow> string" where
  "dir_text (JStr s) = s"
| "dir_text v = []"

definition swc_command :: "json \<Rightarrow> string option \<Rightarrow> string \<Rightarrow> string \<Rightarrow> string" where
  "swc_command srcDir outDir sub configPath =
     ''npx swc '' @ dir_text srcDir @ '' -d '' @ tpl outDir @ ''/'' @ sub @
     '' --config-file '' @ configPath @ '' --strip-leading-paths''"

definition tsc_command :: "string option \<Rightarrow> string" where
  "tsc_command outDir =
     ''npx tsc --declaration --emitDeclarationOnly --outDir '' @ tpl outDir @ ''/types''"

definition performTypeCheck :: "env \<Rightarrow> json \<Rightarrow> world \<Rightarrow> outcome" where
  "performTypeCheck E srcDir w =
     attempt TypeCheckFailed (env_exec E (''npx tsc --noEmit --rootDir '' @ dir_text srcDir) w)"

text \<open>
  How a run ends. \<open>Unexpected\<close> is the handler of line 658 (exit status 1), reached by an
  error thrown outside the \<^verbatim>\<open>try\<close> block, before the run has changed anything;
  \<open>CompilationFailed\<close> is the \<^verbatim>\<open>catch\<close> of line 649, whose \<^verbatim>\<open>process.exit(1)\<close> ends the
  process in the world the failing step left; \<open>Complete\<close> is the normal end, after
  \<open>cleanupTempConfigs\<close>. \<open>showHelp\<close>, \<open>showVersion\<close> and \<open>createProject\<close> are not
  followed further.
\<close>

datatype run =
    UsageError error
  | ShowHelp command
  | ShowVersion
  | CreateProject "string option"
  | DryRun json "string list"
  | Unexpected error
  | CompilationFailed error world
  | Complete world

text \<open>Lines 610-644 of the \<^verbatim>\<open>try\<close> block: everything before the manifest update.\<close>

definition build_outputs :: "env \<Rightarrow> CLIArgs \<Rightarrow> json \<Rightarrow> json \<Rightarrow> world \<Rightarrow> outcome" where
  "build_outputs E args tsconfig srcDir w =
     and_then
       (if fileExists w (map_option JStr (cli_outDir args))
        then attempt (RemoveFailed (tpl (cli_outDir args))) (env_rm E (tpl (cli_outDir args)) w)
        else (None, w))
       (\<lambda>w1.
     case createSWCConfig (env_convert E) w1 tsconfig CommonJS srcDir of
       Inl e \<Rightarrow> (Some e, w1)
     | Inr cjsConfig \<Rightarrow>
     (case createSWCConfig (env_convert E) w1 tsconfig ES6 srcDir of
       Inl e \<Rightarrow> (Some e, w1)
     | Inr esmConfig \<Rightarrow>
     (let (cjsConfigPath, w2) = createTempSWCConfig E cjsConfig ''cjs'' w1;
          (esmConfigPath, w3) = createTempSWCConfig E esmConfig ''esm'' w2;
          cjsCommand = swc_command srcDir (cli_outDir args) ''cjs'' cjsConfigPath;
          esmCommand = swc_command srcDir (cli_outDir args) ''esm'' esmConfigPath
      in
     and_then (attempt (CommandFailed cjsCommand) (env_exec E cjsCommand w3)) (\<lambda>w4.
     and_then (attempt (CommandFailed esmCommand) (env_exec E esmCommand w4)) (\<lambda>w5.
     and_then
       (if \<not> cli_noTypes args \<and> truthy (Some tsconfig)
        then attempt (CommandFailed (tsc_command (cli_outDir args)))
               (env_exec E (tsc_command (cli_outDir args)) w5)
        else (None, w5))
       (\<lambda>w6.
     if cli_typeCheck args
     then and_then (ensureTypeScriptInstalled E w6) (performTypeCheck E srcDir)
     else (None, w6)))))))"

text \<open>The whole \<^verbatim>\<open>try\<close> block: line 646 follows.\<close>

definition compile_steps ::
  "env \<Rightarrow> CLIArgs \<Rightarrow> json \<Rightarrow> json \<Rightarrow> string list \<Rightarrow> world \<Rightarrow> outcome" where
  "compile_steps E args tsconfig srcDir entryPoints w =
     and_then (build_outputs E args tsconfig srcDir w)
       (updatePackageJsonExports entryPoints (cli_outDir args) (cli_noTypes args))"

definition main :: "env \<Rightarrow> string list \<Rightarrow> world \<Rightarrow> run" where
  "main E argv w =
     (case parseArgs argv of
        Inl e \<Rightarrow> UsageError e
      | Inr args \<Rightarrow>
          if cli_help args then ShowHelp (cli_command args)
          else if cli_version args then ShowVersion
          else if cli_command args = Create then CreateProject (cli_projectName args)
          else
            (let tsconfig = readTSConfig w;
                 srcDir = detectSourceDir w tsconfig (cli_srcDir args)
             in case detectEntryPoints w srcDir of
                  Inl e \<Rightarrow> Unexpected e
                | Inr entryPoints \<Rightarrow>
                    if cli_dryRun args then DryRun srcDir entryPoints
                    else
                      (case compile_steps E args tsconfig srcDir entryPoints w of
                         (Some e, w') \<Rightarrow> CompilationFailed e w'
                       | (None, w') \<Rightarrow> Complete (cleanupTempConfigs w'))))"

text \<open>The exit status of a run, where this file follows the run to its end.\<close>

fun exit_status :: "run \<Rightarrow> nat option" where
  "exit_status (UsageError e) = Some 1"
| "exit_status (ShowHelp c) = Some 0"
| "exit_status ShowVersion = None"
| "exit_status (CreateProject n) = None"
| "exit_status (DryRun d es) = Some 0"
| "exit_status (Unexpected e) = Some 1"
| "exit_status (CompilationFailed e w) = Some 1"
| "exit_status (Complete w) = Some 0"

section \<open>The specification's entry-point set, and sample worlds\<close>

text \<open>
  The entry-point set in the words of the specification: the regular files directly inside
  the source directory whose names end in one of the extensions of the whitelist and
  contain neither \<^verbatim>\<open>.test.\<close> nor \<^verbatim>\<open>.spec.\<close>, in the order of the directory listing.
\<close>

definition whitelist :: "string list" where
  "whitelist = [''.ts'', ''.tsx'', ''.js'', ''.jsx'']"

definition spec_entry_points :: "dirent list \<Rightarrow> string list" where
  "spec_entry_points dirents =
     map d_name
       (filter (\<lambda>d. d_isFile d \<and> list_ex (\<lambda>ext. suffix ext (d_name d)) whitelist \<and>
                    \<not> sublist ''.test.'' (d_name d) \<and> \<not> sublist ''.spec.'' (d_name d))
          dirents)"

text \<open>
  A project directory given by its entries, its \<^verbatim>\<open>tsconfig.json\<close> and its manifest, with
  no \<^verbatim>\<open>.temp\<close> directory; and an environment in which every external command succeeds and
  changes nothing, \<^verbatim>\<open>tsconfig-swc\<close> throws and \<^verbatim>\<open>typescript\<close> resolves.
\<close>

definition project :: "(string \<times> node) list \<Rightarrow> tsfile \<Rightarrow> obj option \<Rightarrow> world" where
  "project entries ts manifest =
     \<lparr>fs = map_of entries, tsconfig_file = ts, package_json = manifest, temp = None\<rparr>"

definition quiet_env :: env where
  "quiet_env =
     \<lparr>env_convert = (\<lambda>t. None), env_rm = (\<lambda>p w. (True, w)), env_exec = (\<lambda>c w. (True, w)),
      env_install = (\<lambda>n d w. (True, w)), env_resolve = (\<lambda>w. True), env_tempDir = ''.temp''\<rparr>"

section \<open>Entry-point detection\<close>

lemma includes_str_sublist: "includes_str s p \<longleftrightarrow> sublist p s"
  by (induction s) (auto simp: sublist_Cons_right)

lemma eligible_spec:
  "eligible f \<longleftrightarrow>
     list_ex (\<lambda>ext. suffix ext f) whitelist \<and> \<not> sublist ''.test.'' f \<and> \<not> sublist ''.spec.'' f"
  by (simp add: eligible_def endsWith_def whitelist_def includes_str_sublist)

lemma spec_entry_points_filter:
  "spec_entry_points dirents = filter eligible (map d_name (filter d_isFile dirents))"
  by (induction dirents) (auto simp: spec_entry_points_def eligible_spec)

text \<open>
  C5. When the source directory exists, \<open>detectEntryPoints\<close> returns exactly the
  specification's entry-point set: the regular files of the directory whose names end in
  \<^verbatim>\<open>.ts\<close>, \<^verbatim>\<open>.tsx\<close>, \<^verbatim>\<open>.js\<close> or \<^verbatim>\<open>.jsx\<close> and contain neither \<^verbatim>\<open>.test.\<close> nor
  \<^verbatim>\<open>.spec.\<close>. The branch on an index file does not change the list.
\<close>

theorem detectEntryPoints_is_plain_filter:
  assumes "fs w srcDir = Some (Dir dirents)"
  shows "detectEntryPoints w (JStr srcDir) = Inr (spec_entry_points dirents)"
  using assms by (simp add: detectEntryPoints_def spec_entry_points_filter Let_def)

theorem detectEntryPoints_is_plain_filter_witness:
  "fs (project [(''src'', Dir [\<lparr>d_name = ''index.ts'', d_isFile = True\<rparr>,
                               \<lparr>d_name = ''index.test.ts'', d_isFile = True\<rparr>,
                               \<lparr>d_name = ''utils.js'', d_isFile = True\<rparr>,
                               \<lparr>d_name = ''notes.md'', d_isFile = True\<rparr>,
                               \<lparr>d_name = ''sub.ts'', d_isFile = False\<rparr>])] NoTsconfig None)
      ''src''
     = Some (Dir [\<lparr>d_name = ''index.ts'', d_isFile = True\<rparr>,
                  \<lparr>d_name = ''index.test.ts'', d_isFile = True\<rparr>,
                  \<lparr>d_name = ''utils.js'', d_isFile = True\<rparr>,
                  \<lparr>d_name = ''notes.md'', d_isFile = True\<rparr>,
                  \<lparr>d_name = ''sub.ts'', d_isFile = False\<rparr>]) \<and>
   detectEntryPoints
     (project [(''src'', Dir [\<lparr>d_name = ''index.ts'', d_isFile = True\<rparr>,
                              \<lparr>d_name = ''index.test.ts'', d_isFile = True\<rparr>,
                              \<lparr>d_name = ''utils.js'', d_isFile = True\<rparr>,
                              \<lparr>d_name = ''notes.md'', d_isFile = True\<rparr>,
                              \<lparr>d_name = ''sub.ts'', d_isFile = False\<rparr>])] NoTsconfig None)
     (JStr ''src'') = Inr [''index.ts'', ''utils.js'']"
proof -
  let ?ds = "[\<lparr>d_name = ''index.ts'', d_isFile = True\<rparr>,
              \<lparr>d_name = ''index.test.ts'', d_isFile = True\<rparr>,
              \<lparr>d_name = ''utils.js'', d_isFile = True\<rparr>,
              \<lparr>d_name = ''notes.md'', d_isFile = True\<rparr>,
              \<lparr>d_name = ''sub.ts'', d_isFile = False\<rparr>]"
  have h: "fs (project [(''src'', Dir ?ds)] NoTsconfig None) ''src'' = Some (Dir ?ds)"
    by (simp add: project_def)
  have v: "spec_entry_points ?ds = [''index.ts'', ''utils.js'']"
    by (simp add: spec_entry_points_def whitelist_def suffix_to_prefix sublist_Cons_right)
  show ?thesis
    using h detectEntryPoints_is_plain_filter [OF h] v by simp
qed

section \<open>Manifest updater: the export map\<close>

lemma exportKey_inj: "exportKey a = exportKey b \<longleftrightarrow> a = b"
  by (auto simp: exportKey_def)

lemma fold_add_export_keys:
  "fst ` set (fold (add_export outDir noTypes) entryPoints ex) =
     fst ` set ex \<union> (\<lambda>e. exportKey (path_parse_name e)) ` set entryPoints"
  by (induction entryPoints arbitrary: ex) (auto simp: add_export_def Let_def AList.dom_update)

lemma fold_add_export_distinct:
  "distinct (map fst ex) \<Longrightarrow> distinct (map fst (fold (add_export outDir noTypes) entryPoints ex))"
  by (induction entryPoints arbitrary: ex) (auto simp: add_export_def Let_def AList.distinct_update)

lemma fold_add_export_lookup:
  "map_of ex (exportKey b) = Some (export_entry outDir noTypes b) \<or>
     b \<in> path_parse_name ` set entryPoints \<Longrightarrow>
   map_of (fold (add_export outDir noTypes) entryPoints ex) (exportKey b) =
     Some (export_entry outDir noTypes b)"
proof (induction entryPoints arbitrary: ex)
  case Nil
  then show ?case by simp
next
  case (Cons x xs)
  let ?ex = "add_export outDir noTypes x ex"
  have "map_of ?ex (exportKey b) = Some (export_entry outDir noTypes b) \<or>
        b \<in> path_parse_name ` set xs"
    using Cons.prems
    by (auto simp: add_export_def Let_def AList.update_conv' exportKey_inj)
  then show ?case using Cons.IH [of ?ex] by simp
qed

lemma set_update_cases:
  "p \<in> set (AList.update k v al) \<Longrightarrow> p = (k, v) \<or> p \<in> set al"
  by (induction al) (auto split: if_splits)

lemma fold_add_export_values:
  "p \<in> set (fold (add_export outDir noTypes) entryPoints ex) \<Longrightarrow>
   p \<in> set ex \<or> (\<exists>b. snd p = export_entry outDir noTypes b)"
proof (induction entryPoints arbitrary: ex)
  case Nil
  then show ?case by simp
next
  case (Cons x xs)
  from Cons.IH [of "add_export outDir noTypes x ex"] Cons.prems
  have "p \<in> set (add_export outDir noTypes x ex) \<or> (\<exists>b. snd p = export_entry outDir noTypes b)"
    by simp
  then show ?case
    by (auto simp: add_export_def Let_def dest!: set_update_cases)
qed

lemma map_of_set_main:
  "map_of (set_main outDir noTypes b pj) k =
     (if k = ''types'' \<and> \<not> noTypes then Some (JStr (types_path outDir b))
      else if k = ''module'' then Some (JStr (esm_path outDir b))
      else if k = ''main'' then Some (JStr (cjs_path outDir b))
      else map_of pj k)"
  by (simp add: set_main_def Let_def AList.update_conv')

lemma map_of_set_files_other:
  "k \<noteq> ''files'' \<Longrightarrow> map_of (set_files outDir pj) k = map_of pj k"
  by (auto simp: set_files_def AList.update_conv' split: option.splits json.splits)

lemma map_of_set_files_files:
  "map_of (set_files outDir pj) ''files'' =
     (if \<not> truthy (map_of pj ''files'') then Some (JArr [outDir_json outDir])
      else case map_of pj ''files'' of
             Some (JArr xs) \<Rightarrow>
               Some (JArr (if array_includes xs outDir then xs else xs @ [outDir_json outDir]))
           | v \<Rightarrow> v)"
  by (auto simp: set_files_def AList.update_conv' split: option.splits json.splits)

lemma rewrite_manifest_single:
  "startsWith e ''index.'' \<Longrightarrow>
   rewrite_manifest [e] outDir noTypes pj =
     Inr (set_files outDir
           (AList.update ''exports''
              (JObj [(''.'', export_entry outDir noTypes (path_parse_name e))])
              (set_main outDir noTypes (path_parse_name e) pj)))"
  by (simp add: rewrite_manifest_def Let_def)

lemma find_in_set: "find P xs = Some x \<Longrightarrow> x \<in> set xs"
  by (induction xs) (auto split: if_splits)

lemma rewrite_manifest_multi:
  "entryPoints \<noteq> [] \<Longrightarrow> \<not> (length entryPoints = 1 \<and> startsWith (entryPoints ! 0) ''index.'') \<Longrightarrow>
   \<exists>e \<in> set entryPoints. rewrite_manifest entryPoints outDir noTypes pj =
     Inr (set_files outDir
           (set_main outDir noTypes (path_parse_name e)
              (AList.update ''exports''
                 (JObj (fold (add_export outDir noTypes) entryPoints [])) pj)))"
  by (cases entryPoints) (auto simp: rewrite_manifest_def Let_def split: option.splits dest: find_in_set)

lemma rewrite_manifest_empty: "rewrite_manifest [] outDir noTypes pj = Inl InvalidArgType"
  by (simp add: rewrite_manifest_def)

text \<open>Every non-empty entry-point list gets a manifest written, of one of two shapes.\<close>

lemma rewrite_manifest_shape:
  assumes "entryPoints \<noteq> []"
  shows "\<exists>b ex pj1. rewrite_manifest entryPoints outDir noTypes pj = Inr (set_files outDir pj1) \<and>
           (pj1 = AList.update ''exports'' (JObj ex) (set_main outDir noTypes b pj) \<or>
            pj1 = set_main outDir noTypes b (AList.update ''exports'' (JObj ex) pj)) \<and>
           (ex = [(''.'', export_entry outDir noTypes b)] \<or>
            ex = fold (add_export outDir noTypes) entryPoints [])"
proof (cases "length entryPoints = 1 \<and> startsWith (entryPoints ! 0) ''index.''")
  case True
  then obtain e where e: "entryPoints = [e]" "startsWith e ''index.''"
    by (cases entryPoints) auto
  show ?thesis unfolding e(1) using rewrite_manifest_single [OF e(2)] by blast
next
  case False
  from rewrite_manifest_multi [OF assms False] show ?thesis by blast
qed

lemma updatePackageJsonExports_written:
  assumes "package_json w = Some pj" "rewrite_manifest entryPoints outDir noTypes pj = Inr pj'"
  shows "updatePackageJsonExports entryPoints outDir noTypes w =
           (None, w\<lparr>package_json := Some (written_obj pj')\<rparr>)"
  using assms by (simp add: updatePackageJsonExports_def)

text \<open>What serialisation does to a field, and what it leaves alone.\<close>

lemma map_of_written_obj: "map_of (written_obj pj) k = map_option written (map_of pj k)"
  by (induction pj) (auto simp: written_obj_def)

lemma written_export_entry: "written (export_entry outDir noTypes b) = export_entry outDir noTypes b"
  by (simp add: export_entry_def)

lemma written_entries:
  assumes "\<forall>p \<in> set ex. \<exists>b. snd p = export_entry outDir noTypes b"
  shows "written (JObj ex) = JObj ex"
proof -
  have "map (map_prod id written) ex = ex"
  proof (rule map_idI)
    fix p assume "p \<in> set ex"
    with assms obtain b where "snd p = export_entry outDir noTypes b"
      by blast
    then show "map_prod id written p = p"
      by (cases p) (simp add: written_export_entry)
  qed
  then show ?thesis by simp
qed

lemma written_exports_fold:
  "written (JObj (fold (add_export outDir noTypes) entryPoints [])) =
     JObj (fold (add_export outDir noTypes) entryPoints [])"
proof (rule written_entries [where outDir = outDir and noTypes = noTypes], rule ballI)
  fix p assume "p \<in> set (fold (add_export outDir noTypes) entryPoints [])"
  from fold_add_export_values [OF this] show "\<exists>b. snd p = export_entry outDir noTypes b"
    by simp
qed

lemma written_exports_single:
  "written (JObj [(''.'', export_entry outDir noTypes b)]) =
     JObj [(''.'', export_entry outDir noTypes b)]"
  by (simp add: written_export_entry)

lemma updatePackageJsonExports_empty:
  "package_json w = Some pj \<Longrightarrow>
   updatePackageJsonExports [] outDir noTypes w = (Some InvalidArgType, w)"
  by (simp add: updatePackageJsonExports_def rewrite_manifest_empty)

lemma name_index_ts: "path_parse_name ''index.ts'' = ''index''"
  by code_simp

lemma name_utils_ts: "path_parse_name ''utils.ts'' = ''utils''"
  by code_simp

lemma name_utils_js: "path_parse_name ''utils.js'' = ''utils''"
  by code_simp

text \<open>
  C1, as stated, fails: the entry points \<^verbatim>\<open>utils.ts\<close> and \<^verbatim>\<open>utils.js\<close> have the same base name,
  so both are written under the key \<^verbatim>\<open>./utils\<close> and the export map of the two entry
  points has one key.
\<close>

theorem exports_collide_counterexample:
  "exportKey (path_parse_name ''utils.ts'') = exportKey (path_parse_name ''utils.js'') \<and>
   updatePackageJsonExports [''utils.ts'', ''utils.js''] (Some ''dist'') False
     (project [] NoTsconfig (Some [])) =
   (None, project [] NoTsconfig
      (Some [(''exports'',
               JObj [(''./utils'',
                      JObj [(''import'', JStr ''./dist/esm/utils.js''),
                            (''require'', JStr ''./dist/cjs/utils.js''),
                            (''types'', JStr ''./dist/types/utils.d.ts'')])]),
             (''main'', JStr ''./dist/cjs/utils.js''),
             (''module'', JStr ''./dist/esm/utils.js''),
             (''types'', JStr ''./dist/types/utils.d.ts''),
             (''files'', JArr [JStr ''dist''])]))"
  by (simp add: updatePackageJsonExports_def rewrite_manifest_def project_def startsWith_def
      add_export_def exportKey_def export_entry_def set_main_def set_files_def
      cjs_path_def esm_path_def types_path_def name_utils_ts name_utils_js written_obj_def Let_def)

text \<open>
  C1, amended. For an entry-point list with more than one file the manifest is written, and
  its export map has exactly the keys of the entry points, \<^verbatim>\<open>.\<close> for an entry whose base
  name is \<^verbatim>\<open>index\<close> and \<^verbatim>\<open>./<basename>\<close> for every other entry, each key once and bound
  to the targets of that base name. Two entry points produce the same key exactly when
  they have the same base name, so the map has one key per distinct base name.
\<close>

theorem exports_one_key_per_base_name:
  assumes "1 < length entryPoints" and "package_json w = Some pj"
  shows "\<exists>pj' ex.
           updatePackageJsonExports entryPoints (Some outDir) noTypes w =
             (None, w\<lparr>package_json := Some pj'\<rparr>) \<and>
           map_of pj' ''exports'' = Some (JObj ex) \<and>
           distinct (map fst ex) \<and>
           set (map fst ex) =
             (\<lambda>e. if path_parse_name e = ''index'' then ''.'' else ''./'' @ path_parse_name e)
               ` set entryPoints \<and>
           length ex = card (path_parse_name ` set entryPoints) \<and>
           (\<forall>e \<in> set entryPoints.
              map_of ex (if path_parse_name e = ''index'' then ''.'' else ''./'' @ path_parse_name e) =
                Some (export_entry (Some outDir) noTypes (path_parse_name e))) \<and>
           (\<forall>a b. exportKey (path_parse_name a) = exportKey (path_parse_name b) \<longleftrightarrow>
                    path_parse_name a = path_parse_name b)"
proof -
  let ?ex = "fold (add_export (Some outDir) noTypes) entryPoints []"
  let ?key = "\<lambda>e. exportKey (path_parse_name e)"
  from assms(1) have ne: "entryPoints \<noteq> []" and multi: "\<not> (length entryPoints = 1 \<and> startsWith (entryPoints ! 0) ''index.'')"
    by auto
  from rewrite_manifest_multi [OF ne multi]
  obtain e where rw: "rewrite_manifest entryPoints (Some outDir) noTypes pj =
     Inr (set_files (Some outDir)
           (set_main (Some outDir) noTypes (path_parse_name e)
              (AList.update ''exports'' (JObj ?ex) pj)))" (is "_ = Inr ?pj'")
    by blast
  have written: "updatePackageJsonExports entryPoints (Some outDir) noTypes w =
      (None, w\<lparr>package_json := Some (written_obj ?pj')\<rparr>)"
    by (rule updatePackageJsonExports_written [OF assms(2) rw])
  have exports: "map_of (written_obj ?pj') ''exports'' = Some (JObj ?ex)"
    by (simp add: map_of_written_obj map_of_set_files_other map_of_set_main AList.update_conv'
        written_exports_fold del: written.simps)
  have dist: "distinct (map fst ?ex)"
    by (rule fold_add_export_distinct) simp
  have keys: "fst ` set ?ex = ?key ` set entryPoints"
    using fold_add_export_keys [of "Some outDir" noTypes entryPoints "[]"] by simp
  have "card (set (map fst ?ex)) = card ((exportKey \<circ> path_parse_name) ` set entryPoints)"
    using keys by (simp add: comp_def)
  also have "\<dots> = card (exportKey ` path_parse_name ` set entryPoints)"
    by (simp add: image_comp)
  also have "\<dots> = card (path_parse_name ` set entryPoints)"
    by (rule card_image) (simp add: inj_on_def exportKey_inj)
  finally have len: "length ?ex = card (path_parse_name ` set entryPoints)"
    using dist distinct_card [of "map fst ?ex"] by simp
  have lookups: "\<forall>e \<in> set entryPoints. map_of ?ex (?key e) =
      Some (export_entry (Some outDir) noTypes (path_parse_name e))"
    by (auto intro!: fold_add_export_lookup)
  have keys': "set (map fst ?ex) =
      (\<lambda>e. if path_parse_name e = ''index'' then ''.'' else ''./'' @ path_parse_name e)
        ` set entryPoints"
    using keys by (simp add: exportKey_def)
  have lookups': "\<forall>e \<in> set entryPoints.
      map_of ?ex (if path_parse_name e = ''index'' then ''.'' else ''./'' @ path_parse_name e) =
        Some (export_entry (Some outDir) noTypes (path_parse_name e))"
    using lookups by (simp add: exportKey_def)
  have inj: "\<forall>a b. exportKey (path_parse_name a) = exportKey (path_parse_name b) \<longleftrightarrow>
      path_parse_name a = path_parse_name b"
    by (simp add: exportKey_inj)
  from written exports dist keys' len lookups' inj show ?thesis
    by blast
qed

theorem exports_one_key_per_base_name_witness:
  "1 < length [''index.ts'', ''utils.ts''] \<and>
   package_json (project [] NoTsconfig (Some [])) = Some [] \<and>
   (\<exists>pj' ex.
      updatePackageJsonExports [''index.ts'', ''utils.ts''] (Some ''dist'') False
        (project [] NoTsconfig (Some [])) =
        (None, (project [] NoTsconfig (Some []))\<lparr>package_json := Some pj'\<rparr>) \<and>
      map_of pj' ''exports'' = Some (JObj ex) \<and> distinct (map fst ex) \<and>
      set (map fst ex) = {''.'', ''./utils''} \<and> length ex = 2)"
proof -
  have h1: "1 < length [''index.ts'', ''utils.ts'']"
    by simp
  have h2: "package_json (project [] NoTsconfig (Some [])) = Some []"
    by (simp add: project_def)
  from exports_one_key_per_base_name [OF h1 h2, of "''dist''" False]
  obtain pj' ex where
    a: "updatePackageJsonExports [''index.ts'', ''utils.ts''] (Some ''dist'') False
          (project [] NoTsconfig (Some [])) =
        (None, (project [] NoTsconfig (Some []))\<lparr>package_json := Some pj'\<rparr>)" and
    b: "map_of pj' ''exports'' = Some (JObj ex)" and
    c: "distinct (map fst ex)" and
    d: "set (map fst ex) =
          (\<lambda>e. if path_parse_name e = ''index'' then ''.'' else ''./'' @ path_parse_name e)
            ` set [''index.ts'', ''utils.ts'']" and
    e: "length ex = card (path_parse_name ` set [''index.ts'', ''utils.ts''])"
    by blast
  have d': "set (map fst ex) = {''.'', ''./utils''}"
    unfolding d by (auto simp: name_index_ts name_utils_ts)
  have e': "length ex = 2"
    unfolding e by (simp add: name_index_ts name_utils_ts)
  from h1 h2 a b c d' e' show ?thesis
    by blast
qed

section \<open>Manifest updater: a single index entry\<close>

text \<open>
  C2. For an entry-point list of exactly one file whose name starts with \<^verbatim>\<open>index.\<close>, the
  manifest is written with \<^verbatim>\<open>main\<close> set to \<^verbatim>\<open>./<outDir>/cjs/<name>.js\<close>, \<^verbatim>\<open>module\<close> set to
  \<^verbatim>\<open>./<outDir>/esm/<name>.js\<close>, and \<^verbatim>\<open>exports\<close> replaced by the map whose one key \<^verbatim>\<open>.\<close>
  holds the ESM path under \<^verbatim>\<open>import\<close> and the CJS path under \<^verbatim>\<open>require\<close> (and the
  declaration path under \<^verbatim>\<open>types\<close> unless the no-types flag is set); \<open><name>\<close> is the base
  name \<^verbatim>\<open>path.parse\<close> gives the file.
\<close>

theorem single_index_entry_manifest:
  assumes "startsWith e ''index.''" and "package_json w = Some pj"
  shows "\<exists>pj'.
           updatePackageJsonExports [e] (Some outDir) noTypes w =
             (None, w\<lparr>package_json := Some pj'\<rparr>) \<and>
           map_of pj' ''main'' =
             Some (JStr (''./'' @ outDir @ ''/cjs/'' @ path_parse_name e @ ''.js'')) \<and>
           map_of pj' ''module'' =
             Some (JStr (''./'' @ outDir @ ''/esm/'' @ path_parse_name e @ ''.js'')) \<and>
           map_of pj' ''exports'' =
             Some (JObj [(''.'',
               JObj ([(''import'', JStr (''./'' @ outDir @ ''/esm/'' @ path_parse_name e @ ''.js'')),
                      (''require'', JStr (''./'' @ outDir @ ''/cjs/'' @ path_parse_name e @ ''.js''))] @
                     (if noTypes then []
                      else [(''types'',
                             JStr (''./'' @ outDir @ ''/types/'' @ path_parse_name e @ ''.d.ts''))])))])"
proof -
  let ?b = "path_parse_name e"
  let ?pj' = "set_files (Some outDir)
     (AList.update ''exports'' (JObj [(''.'', export_entry (Some outDir) noTypes ?b)])
        (set_main (Some outDir) noTypes ?b pj))"
  have "updatePackageJsonExports [e] (Some outDir) noTypes w =
      (None, w\<lparr>package_json := Some (written_obj ?pj')\<rparr>)"
    by (rule updatePackageJsonExports_written [OF assms(2) rewrite_manifest_single [OF assms(1)]])
  moreover have "map_of (written_obj ?pj') ''main'' =
      Some (JStr (''./'' @ outDir @ ''/cjs/'' @ ?b @ ''.js''))"
    by (simp add: map_of_written_obj map_of_set_files_other AList.update_conv' map_of_set_main
        cjs_path_def)
  moreover have "map_of (written_obj ?pj') ''module'' =
      Some (JStr (''./'' @ outDir @ ''/esm/'' @ ?b @ ''.js''))"
    by (simp add: map_of_written_obj map_of_set_files_other AList.update_conv' map_of_set_main
        esm_path_def)
  moreover have "map_of (written_obj ?pj') ''exports'' =
      Some (JObj [(''.'',
               JObj ([(''import'', JStr (''./'' @ outDir @ ''/esm/'' @ ?b @ ''.js'')),
                      (''require'', JStr (''./'' @ outDir @ ''/cjs/'' @ ?b @ ''.js''))] @
                     (if noTypes then []
                      else [(''types'', JStr (''./'' @ outDir @ ''/types/'' @ ?b @ ''.d.ts''))])))])"
    by (simp add: map_of_written_obj map_of_set_files_other AList.update_conv' export_entry_def
        cjs_path_def esm_path_def types_path_def)
  ultimately show ?thesis
    by blast
qed

theorem single_index_entry_manifest_witness:
  "startsWith ''index.ts'' ''index.'' \<and>
   package_json (project [] NoTsconfig (Some [(''name'', JStr ''pkg'')])) =
     Some [(''name'', JStr ''pkg'')] \<and>
   (\<exists>pj'.
      updatePackageJsonExports [''index.ts''] (Some ''dist'') True
        (project [] NoTsconfig (Some [(''name'', JStr ''pkg'')])) =
        (None, (project [] NoTsconfig (Some [(''name'', JStr ''pkg'')]))\<lparr>package_json := Some pj'\<rparr>) \<and>
      map_of pj' ''main'' = Some (JStr ''./dist/cjs/index.js'') \<and>
      map_of pj' ''module'' = Some (JStr ''./dist/esm/index.js'') \<and>
      map_of pj' ''exports'' =
        Some (JObj [(''.'', JObj [(''import'', JStr ''./dist/esm/index.js''),
                                  (''require'', JStr ''./dist/cjs/index.js'')])]))"
proof -
  have h1: "startsWith ''index.ts'' ''index.''"
    by (simp add: startsWith_def)
  have h2: "package_json (project [] NoTsconfig (Some [(''name'', JStr ''pkg'')])) =
      Some [(''name'', JStr ''pkg'')]"
    by (simp add: project_def)
  from single_index_entry_manifest [OF h1 h2, of "''dist''" True] h1 h2
  show ?thesis
    by (simp add: name_index_ts)
qed

section \<open>Manifest updater: the no-types flag\<close>

lemma export_entry_no_types:
  "\<exists>fields. export_entry outDir True b = JObj fields \<and> map_of fields ''types'' = None"
  by (simp add: export_entry_def)

text \<open>
  C3, as stated, fails: the updater never removes a field, so a \<^verbatim>\<open>types\<close> field that the
  manifest had before the update is still there after an update with the no-types flag.
\<close>

theorem no_types_counterexample:
  "updatePackageJsonExports [''index.ts''] (Some ''dist'') True
     (project [] NoTsconfig (Some [(''types'', JStr ''./old.d.ts'')])) =
   (None, project [] NoTsconfig
      (Some [(''types'', JStr ''./old.d.ts''),
             (''main'', JStr ''./dist/cjs/index.js''),
             (''module'', JStr ''./dist/esm/index.js''),
             (''exports'',
               JObj [(''.'',
                      JObj [(''import'', JStr ''./dist/esm/index.js''),
                            (''require'', JStr ''./dist/cjs/index.js'')])]),
             (''files'', JArr [JStr ''dist''])]))"
  by (simp add: updatePackageJsonExports_def rewrite_manifest_def project_def startsWith_def
      export_entry_def set_main_def set_files_def cjs_path_def esm_path_def name_index_ts
      written_obj_def Let_def)

lemma no_types_nonempty:
  assumes "entryPoints \<noteq> []" and "package_json w = Some pj"
  shows "\<exists>pj' ex.
           updatePackageJsonExports entryPoints (Some outDir) True w =
             (None, w\<lparr>package_json := Some pj'\<rparr>) \<and>
           map_of pj' ''types'' = map_option written (map_of pj ''types'') \<and>
           map_of pj' ''exports'' = Some (JObj ex) \<and>
           (\<forall>p \<in> set ex. \<exists>fields. snd p = JObj fields \<and> map_of fields ''types'' = None)"
proof -
  from rewrite_manifest_shape [OF assms(1), of "Some outDir" True pj]
  obtain b ex pj1 where
    rw: "rewrite_manifest entryPoints (Some outDir) True pj = Inr (set_files (Some outDir) pj1)" and
    pj1: "pj1 = AList.update ''exports'' (JObj ex) (set_main (Some outDir) True b pj) \<or>
          pj1 = set_main (Some outDir) True b (AList.update ''exports'' (JObj ex) pj)" and
    ex: "ex = [(''.'', export_entry (Some outDir) True b)] \<or>
         ex = fold (add_export (Some outDir) True) entryPoints []"
    by blast
  let ?pj' = "written_obj (set_files (Some outDir) pj1)"
  have written: "updatePackageJsonExports entryPoints (Some outDir) True w =
      (None, w\<lparr>package_json := Some ?pj'\<rparr>)"
    by (rule updatePackageJsonExports_written [OF assms(2) rw])
  have "map_of (set_files (Some outDir) pj1) ''types'' = map_of pj ''types''"
    using pj1 by (auto simp: map_of_set_files_other map_of_set_main AList.update_conv')
  then have types: "map_of ?pj' ''types'' = map_option written (map_of pj ''types'')"
    by (simp add: map_of_written_obj)
  have fixed: "written (JObj ex) = JObj ex"
    using ex written_exports_single written_exports_fold by metis
  have "map_of (set_files (Some outDir) pj1) ''exports'' = Some (JObj ex)"
    using pj1 by (auto simp: map_of_set_files_other map_of_set_main AList.update_conv')
  then have exports: "map_of ?pj' ''exports'' = Some (JObj ex)"
    by (simp add: map_of_written_obj fixed del: written.simps)
  have entries: "\<forall>p \<in> set ex. \<exists>fields. snd p = JObj fields \<and> map_of fields ''types'' = None"
  proof
    fix p assume p: "p \<in> set ex"
    from ex have "\<exists>b'. snd p = export_entry (Some outDir) True b'"
    proof
      assume "ex = [(''.'', export_entry (Some outDir) True b)]"
      with p show ?thesis by auto
    next
      assume "ex = fold (add_export (Some outDir) True) entryPoints []"
      with p fold_add_export_values [of p "Some outDir" True entryPoints "[]"]
      show ?thesis by simp
    qed
    then show "\<exists>fields. snd p = JObj fields \<and> map_of fields ''types'' = None"
      using export_entry_no_types by metis
  qed
  show ?thesis
    by (rule exI [of _ ?pj'], rule exI [of _ ex], intro conjI, rule written, rule types,
        rule exports, rule entries)
qed

text \<open>
  C3, amended. With the no-types flag set, for every entry-point list, output directory and
  manifest, the update never assigns the top-level \<^verbatim>\<open>types\<close> field: the manifest it writes
  has no \<^verbatim>\<open>types\<close> field when the input had none, and otherwise holds the input's \<^verbatim>\<open>types\<close>
  value as \<^verbatim>\<open>JSON.stringify\<close> writes what \<^verbatim>\<open>JSON.parse\<close> read (a string, as a path is, is
  written unchanged). The export map is replaced, and no entry of it has a \<^verbatim>\<open>types\<close>
  sub-field. For the empty list the update throws and no manifest is written.
\<close>

theorem no_types_writes_no_types:
  assumes "package_json w = Some pj"
  shows "(entryPoints = [] \<and>
          updatePackageJsonExports entryPoints (Some outDir) True w = (Some InvalidArgType, w)) \<or>
         (\<exists>pj' ex.
            updatePackageJsonExports entryPoints (Some outDir) True w =
              (None, w\<lparr>package_json := Some pj'\<rparr>) \<and>
            map_of pj' ''types'' = map_option written (map_of pj ''types'') \<and>
            (map_of pj ''types'' = None \<longrightarrow> map_of pj' ''types'' = None) \<and>
            (\<forall>s. map_of pj ''types'' = Some (JStr s) \<longrightarrow> map_of pj' ''types'' = Some (JStr s)) \<and>
            map_of pj' ''exports'' = Some (JObj ex) \<and>
            (\<forall>p \<in> set ex. \<exists>fields. snd p = JObj fields \<and> map_of fields ''types'' = None))"
proof (cases "entryPoints = []")
  case True
  then show ?thesis
    using updatePackageJsonExports_empty [OF assms] by simp
next
  case False
  from no_types_nonempty [OF False assms, of outDir]
  obtain pj' ex where
    a: "updatePackageJsonExports entryPoints (Some outDir) True w =
          (None, w\<lparr>package_json := Some pj'\<rparr>)" and
    b: "map_of pj' ''types'' = map_option written (map_of pj ''types'')" and
    c: "map_of pj' ''exports'' = Some (JObj ex)" and
    d: "\<forall>p \<in> set ex. \<exists>fields. snd p = JObj fields \<and> map_of fields ''types'' = None"
    by blast
  have b1: "map_of pj ''types'' = None \<longrightarrow> map_of pj' ''types'' = None"
    by (simp add: b)
  have b2: "\<forall>s. map_of pj ''types'' = Some (JStr s) \<longrightarrow> map_of pj' ''types'' = Some (JStr s)"
    by (simp add: b)
  show ?thesis
    by (rule disjI2, rule exI [of _ pj'], rule exI [of _ ex], intro conjI, rule a, rule b,
        rule b1, rule b2, rule c, rule d)
qed

theorem no_types_writes_no_types_witness:
  "package_json (project [] NoTsconfig (Some [(''types'', JStr ''./old.d.ts'')])) =
     Some [(''types'', JStr ''./old.d.ts'')] \<and>
   (\<exists>pj' ex.
      updatePackageJsonExports [''index.ts'', ''utils.ts''] (Some ''dist'') True
        (project [] NoTsconfig (Some [(''types'', JStr ''./old.d.ts'')])) =
        (None, (project [] NoTsconfig (Some [(''types'', JStr ''./old.d.ts'')]))
                 \<lparr>package_json := Some pj'\<rparr>) \<and>
      map_of pj' ''types'' = Some (JStr ''./old.d.ts'') \<and>
      map_of pj' ''exports'' = Some (JObj ex) \<and>
      (\<forall>p \<in> set ex. \<exists>fields. snd p = JObj fields \<and> map_of fields ''types'' = None))"
proof -
  let ?pj = "[(''types'', JStr ''./old.d.ts'')]"
  have h: "package_json (project [] NoTsconfig (Some ?pj)) = Some ?pj"
    by (simp add: project_def)
  from no_types_writes_no_types [OF h, of "[''index.ts'', ''utils.ts'']" "''dist''"]
  obtain pj' ex where
    a: "updatePackageJsonExports [''index.ts'', ''utils.ts''] (Some ''dist'') True
          (project [] NoTsconfig (Some ?pj)) =
        (None, (project [] NoTsconfig (Some ?pj))\<lparr>package_json := Some pj'\<rparr>)" and
    b: "\<forall>s. map_of ?pj ''types'' = Some (JStr s) \<longrightarrow> map_of pj' ''types'' = Some (JStr s)" and
    c: "map_of pj' ''exports'' = Some (JObj ex)" and
    d: "\<forall>p \<in> set ex. \<exists>fields. snd p = JObj fields \<and> map_of fields ''types'' = None"
    by blast
  from b have b': "map_of pj' ''types'' = Some (JStr ''./old.d.ts'')"
    by simp
  from h a b' c d show ?thesis
    by blast
qed

section \<open>Manifest updater: the \<^verbatim>\<open>files\<close> list and the other fields\<close>

text \<open>
  C9, as stated, fails twice. For the empty entry-point list the update throws before it
  writes, so a manifest without \<^verbatim>\<open>files\<close> gets none. And the manifest is written by
  \<^verbatim>\<open>JSON.stringify\<close>, which does not write every value as \<^verbatim>\<open>JSON.parse\<close> read it: a field
  \<^verbatim>\<open>"build": 1e400\<close>, which the update does not touch, is read as \<^verbatim>\<open>Infinity\<close> and written
  \<^verbatim>\<open>null\<close>.
\<close>

theorem other_field_changed_counterexample:
  "updatePackageJsonExports [] (Some ''dist'') True
     (project [] NoTsconfig (Some [(''name'', JStr ''pkg'')])) =
   (Some InvalidArgType, project [] NoTsconfig (Some [(''name'', JStr ''pkg'')])) \<and>
   updatePackageJsonExports [''index.ts''] (Some ''dist'') True
     (project [] NoTsconfig (Some [(''build'', JNum PosInfinity)])) =
   (None, project [] NoTsconfig
      (Some [(''build'', JNull),
             (''main'', JStr ''./dist/cjs/index.js''),
             (''module'', JStr ''./dist/esm/index.js''),
             (''exports'',
               JObj [(''.'',
                      JObj [(''import'', JStr ''./dist/esm/index.js''),
                            (''require'', JStr ''./dist/cjs/index.js'')])]),
             (''files'', JArr [JStr ''dist''])]))"
  by (simp add: updatePackageJsonExports_def rewrite_manifest_def project_def startsWith_def
      export_entry_def set_main_def set_files_def cjs_path_def esm_path_def name_index_ts
      written_obj_def Let_def)

lemma files_nonempty:
  assumes "entryPoints \<noteq> []" and "package_json w = Some pj"
  shows "\<exists>pj'.
           updatePackageJsonExports entryPoints (Some outDir) noTypes w =
             (None, w\<lparr>package_json := Some pj'\<rparr>) \<and>
           (\<forall>xs. map_of pj ''files'' = Some (JArr xs) \<longrightarrow>
              map_of pj' ''files'' =
                Some (JArr (map written
                  (if JStr outDir \<in> set xs then xs else xs @ [JStr outDir])))) \<and>
           (map_of pj ''files'' = None \<longrightarrow> map_of pj' ''files'' = Some (JArr [JStr outDir])) \<and>
           (\<forall>k. k \<notin> {''main'', ''module'', ''types'', ''exports'', ''files''} \<longrightarrow>
              map_of pj' k = map_option written (map_of pj k))"
proof -
  from rewrite_manifest_shape [OF assms(1), of "Some outDir" noTypes pj]
  obtain b ex pj1 where
    rw: "rewrite_manifest entryPoints (Some outDir) noTypes pj =
           Inr (set_files (Some outDir) pj1)" and
    pj1: "pj1 = AList.update ''exports'' (JObj ex) (set_main (Some outDir) noTypes b pj) \<or>
          pj1 = set_main (Some outDir) noTypes b (AList.update ''exports'' (JObj ex) pj)"
    by blast
  let ?pj1' = "set_files (Some outDir) pj1"
  let ?pj' = "written_obj ?pj1'"
  have written: "updatePackageJsonExports entryPoints (Some outDir) noTypes w =
      (None, w\<lparr>package_json := Some ?pj'\<rparr>)"
    by (rule updatePackageJsonExports_written [OF assms(2) rw])
  have before: "map_of pj1 ''files'' = map_of pj ''files''"
    using pj1 by (auto simp: map_of_set_main AList.update_conv')
  have "\<forall>xs. map_of pj ''files'' = Some (JArr xs) \<longrightarrow>
      map_of ?pj1' ''files'' = Some (JArr (if JStr outDir \<in> set xs then xs else xs @ [JStr outDir]))"
    by (simp add: map_of_set_files_files before)
  then have present: "\<forall>xs. map_of pj ''files'' = Some (JArr xs) \<longrightarrow>
      map_of ?pj' ''files'' =
        Some (JArr (map written (if JStr outDir \<in> set xs then xs else xs @ [JStr outDir])))"
    by (simp add: map_of_written_obj)
  have "map_of pj ''files'' = None \<longrightarrow> map_of ?pj1' ''files'' = Some (JArr [JStr outDir])"
    by (simp add: map_of_set_files_files before)
  then have absent: "map_of pj ''files'' = None \<longrightarrow> map_of ?pj' ''files'' = Some (JArr [JStr outDir])"
    by (simp add: map_of_written_obj)
  have frame: "\<forall>k. k \<notin> {''main'', ''module'', ''types'', ''exports'', ''files''} \<longrightarrow>
      map_of ?pj' k = map_option written (map_of pj k)"
  proof (intro allI impI)
    fix k :: string
    assume "k \<notin> {''main'', ''module'', ''types'', ''exports'', ''files''}"
    then have k: "k \<noteq> ''main''" "k \<noteq> ''module''" "k \<noteq> ''types''" "k \<noteq> ''exports''"
      "k \<noteq> ''files''"
      by blast+
    have "map_of ?pj1' k = map_of pj1 k"
      using k(5) by (rule map_of_set_files_other)
    also have "\<dots> = map_of pj k"
    proof -
      have "map_of (AList.update ''exports'' (JObj ex) (set_main (Some outDir) noTypes b pj)) k =
          map_of pj k"
        using k(1-4) by (simp add: map_of_set_main AList.update_conv')
      moreover
      have "map_of (set_main (Some outDir) noTypes b (AList.update ''exports'' (JObj ex) pj)) k =
          map_of pj k"
        using k(1-4) by (simp add: map_of_set_main AList.update_conv')
      ultimately show ?thesis
        using pj1 by metis
    qed
    finally have "map_of ?pj1' k = map_of pj k" .
    then show "map_of ?pj' k = map_option written (map_of pj k)"
      by (simp only: map_of_written_obj)
  qed
  show ?thesis
    by (rule exI [of _ ?pj'], intro conjI, rule written, rule present, rule absent, rule frame)
qed

text \<open>
  C9, amended. For every manifest and entry-point list, the manifest that is written (one is
  written unless the list is empty, when the update throws) is the input with these changes
  only: when \<^verbatim>\<open>files\<close> is a list, the output directory is appended to it exactly when it
  is not already a member; when \<^verbatim>\<open>files\<close> is absent it becomes the one-element list of the
  output directory; the update assigns no field other than \<^verbatim>\<open>main\<close>, \<^verbatim>\<open>module\<close>,
  \<^verbatim>\<open>types\<close>, \<^verbatim>\<open>exports\<close> and \<^verbatim>\<open>files\<close>, so that every other field is there with the value
  \<^verbatim>\<open>JSON.stringify\<close> writes for what \<^verbatim>\<open>JSON.parse\<close> read, none added and none removed. That
  value is the one read wherever writing and reading back gives the same value, which is
  everywhere but at an infinite number (written \<^verbatim>\<open>null\<close>) and negative zero (written
  \<^verbatim>\<open>0\<close>); the elements already in \<^verbatim>\<open>files\<close> are written the same way.
\<close>

theorem files_appended_rest_preserved:
  assumes "package_json w = Some pj"
  shows "(entryPoints = [] \<and>
          updatePackageJsonExports entryPoints (Some outDir) noTypes w =
            (Some InvalidArgType, w)) \<or>
         (\<exists>pj'.
            updatePackageJsonExports entryPoints (Some outDir) noTypes w =
              (None, w\<lparr>package_json := Some pj'\<rparr>) \<and>
            (\<forall>xs. map_of pj ''files'' = Some (JArr xs) \<longrightarrow>
               map_of pj' ''files'' =
                 Some (JArr (map written
                   (if JStr outDir \<in> set xs then xs else xs @ [JStr outDir])))) \<and>
            (map_of pj ''files'' = None \<longrightarrow> map_of pj' ''files'' = Some (JArr [JStr outDir])) \<and>
            (\<forall>k. k \<notin> {''main'', ''module'', ''types'', ''exports'', ''files''} \<longrightarrow>
               map_of pj' k = map_option written (map_of pj k)) \<and>
            (\<forall>k v. k \<notin> {''main'', ''module'', ''types'', ''exports'', ''files''} \<longrightarrow>
               map_of pj k = Some v \<longrightarrow> written v = v \<longrightarrow> map_of pj' k = Some v))"
proof (cases "entryPoints = []")
  case True
  then show ?thesis
    using updatePackageJsonExports_empty [OF assms] by simp
next
  case False
  from files_nonempty [OF False assms, of outDir noTypes]
  obtain pj' where all:
    "updatePackageJsonExports entryPoints (Some outDir) noTypes w =
       (None, w\<lparr>package_json := Some pj'\<rparr>) \<and>
     (\<forall>xs. map_of pj ''files'' = Some (JArr xs) \<longrightarrow>
        map_of pj' ''files'' =
          Some (JArr (map written (if JStr outDir \<in> set xs then xs else xs @ [JStr outDir])))) \<and>
     (map_of pj ''files'' = None \<longrightarrow> map_of pj' ''files'' = Some (JArr [JStr outDir])) \<and>
     (\<forall>k. k \<notin> {''main'', ''module'', ''types'', ''exports'', ''files''} \<longrightarrow>
        map_of pj' k = map_option written (map_of pj k))" ..
  note a = all [THEN conjunct1]
    and b = all [THEN conjunct2, THEN conjunct1]
    and c = all [THEN conjunct2, THEN conjunct2, THEN conjunct1]
    and d = all [THEN conjunct2, THEN conjunct2, THEN conjunct2]
  have e: "\<forall>k v. k \<notin> {''main'', ''module'', ''types'', ''exports'', ''files''} \<longrightarrow>
      map_of pj k = Some v \<longrightarrow> written v = v \<longrightarrow> map_of pj' k = Some v"
  proof (intro allI impI)
    fix k v
    assume k: "k \<notin> {''main'', ''module'', ''types'', ''exports'', ''files''}"
      and v: "map_of pj k = Some v" and s: "written v = v"
    from d [rule_format, OF k] show "map_of pj' k = Some v"
      by (simp only: v s option.map)
  qed
  show ?thesis
    by (rule disjI2, rule exI [of _ pj'], intro conjI, rule a, rule b, rule c, rule d, rule e)
qed

theorem files_appended_rest_preserved_witness:
  "package_json (project [] NoTsconfig
      (Some [(''name'', JStr ''pkg''), (''files'', JArr [JStr ''README.md'']),
             (''build'', JNum NegZero)])) =
     Some [(''name'', JStr ''pkg''), (''files'', JArr [JStr ''README.md'']),
           (''build'', JNum NegZero)] \<and>
   (\<exists>pj'.
      updatePackageJsonExports [''index.ts''] (Some ''dist'') False
        (project [] NoTsconfig
           (Some [(''name'', JStr ''pkg''), (''files'', JArr [JStr ''README.md'']),
                  (''build'', JNum NegZero)])) =
        (None, (project [] NoTsconfig
                  (Some [(''name'', JStr ''pkg''), (''files'', JArr [JStr ''README.md'']),
                         (''build'', JNum NegZero)]))
                 \<lparr>package_json := Some pj'\<rparr>) \<and>
      map_of pj' ''files'' = Some (JArr [JStr ''README.md'', JStr ''dist'']) \<and>
      map_of pj' ''name'' = Some (JStr ''pkg'') \<and>
      map_of pj' ''build'' = Some (JNum PosZero) \<and>
      map_of pj' ''version'' = None)"
proof -
  let ?pj = "[(''name'', JStr ''pkg''), (''files'', JArr [JStr ''README.md'']),
              (''build'', JNum NegZero)]"
  have h2: "package_json (project [] NoTsconfig (Some ?pj)) = Some ?pj"
    by (simp add: project_def)
  from files_appended_rest_preserved [OF h2, of "[''index.ts'']" "''dist''" False]
  show ?thesis
  proof (elim disjE conjE exE)
    assume "[''index.ts''] = []"
    then show ?thesis by simp
  next
    fix pj'
    assume a: "updatePackageJsonExports [''index.ts''] (Some ''dist'') False
          (project [] NoTsconfig (Some ?pj)) =
        (None, (project [] NoTsconfig (Some ?pj))\<lparr>package_json := Some pj'\<rparr>)"
      and b: "\<forall>xs. map_of ?pj ''files'' = Some (JArr xs) \<longrightarrow>
          map_of pj' ''files'' =
            Some (JArr (map written (if JStr ''dist'' \<in> set xs then xs else xs @ [JStr ''dist''])))"
      and c: "\<forall>k. k \<notin> {''main'', ''module'', ''types'', ''exports'', ''files''} \<longrightarrow>
          map_of pj' k = map_option written (map_of ?pj k)"
      and d: "\<forall>k v. k \<notin> {''main'', ''module'', ''types'', ''exports'', ''files''} \<longrightarrow>
          map_of ?pj k = Some v \<longrightarrow> written v = v \<longrightarrow> map_of pj' k = Some v"
    from b have b': "map_of pj' ''files'' = Some (JArr [JStr ''README.md'', JStr ''dist''])"
      by simp
    from d [rule_format, of "''name''" "JStr ''pkg''"]
    have c1: "map_of pj' ''name'' = Some (JStr ''pkg'')"
      by simp
    from c [rule_format, of "''build''"] have c2: "map_of pj' ''build'' = Some (JNum PosZero)"
      by simp
    from c [rule_format, of "''version''"] have c3: "map_of pj' ''version'' = None"
      by simp
    show ?thesis
      by (rule conjI [OF h2], rule exI [of _ pj'], intro conjI, rule a, rule b', rule c1,
          rule c2, rule c3)
  qed
qed

section \<open>The compile run: failures\<close>

lemma main_compile:
  assumes "parseArgs argv = Inr args" and "\<not> cli_help args" and "\<not> cli_version args"
    and "cli_command args = Compile"
  shows "main E argv w =
     (case detectEntryPoints w (detectSourceDir w (readTSConfig w) (cli_srcDir args)) of
        Inl e \<Rightarrow> Unexpected e
      | Inr entryPoints \<Rightarrow>
          if cli_dryRun args
          then DryRun (detectSourceDir w (readTSConfig w) (cli_srcDir args)) entryPoints
          else
            (case compile_steps E args (readTSConfig w)
                    (detectSourceDir w (readTSConfig w) (cli_srcDir args)) entryPoints w of
               (Some e, w') \<Rightarrow> CompilationFailed e w'
             | (None, w') \<Rightarrow> Complete (cleanupTempConfigs w')))"
  using assms by (simp add: main_def Let_def)

text \<open>
  C10. For the empty entry-point list and an existing manifest, \<open>updatePackageJsonExports\<close>
  throws (the \<^verbatim>\<open>TypeError\<close> of \<^verbatim>\<open>path.parse(undefined)\<close>) and leaves the world, and so the
  manifest on disk, as it was; a compile run that reaches the update with an empty
  entry-point list and a manifest in place ends in the \<^verbatim>\<open>catch\<close> of line 649 with exit
  status 1, in the world the steps before the update left.
\<close>

theorem empty_entry_points_fail_before_write:
  assumes "parseArgs argv = Inr args" and "\<not> cli_help args" and "\<not> cli_version args"
    and "cli_command args = Compile" and "\<not> cli_dryRun args"
    and "detectEntryPoints w0 (detectSourceDir w0 (readTSConfig w0) (cli_srcDir args)) = Inr []"
    and "build_outputs E args (readTSConfig w0)
           (detectSourceDir w0 (readTSConfig w0) (cli_srcDir args)) w0 = (None, w)"
    and "package_json w = Some pj"
  shows "updatePackageJsonExports [] (cli_outDir args) (cli_noTypes args) w =
           (Some InvalidArgType, w) \<and>
         main E argv w0 = CompilationFailed InvalidArgType w \<and>
         exit_status (main E argv w0) = Some 1"
proof -
  have upd: "updatePackageJsonExports [] (cli_outDir args) (cli_noTypes args) w =
      (Some InvalidArgType, w)"
    by (rule updatePackageJsonExports_empty [OF assms(8)])
  have steps: "compile_steps E args (readTSConfig w0)
      (detectSourceDir w0 (readTSConfig w0) (cli_srcDir args)) [] w0 = (Some InvalidArgType, w)"
    by (simp add: compile_steps_def assms(7) and_then_def upd)
  have run: "main E argv w0 = CompilationFailed InvalidArgType w"
    by (simp add: main_compile [OF assms(1-4)] assms(5,6) steps)
  show ?thesis
    by (simp add: upd run)
qed

lemma parseArgs_nil: "parseArgs [] = Inr default_args"
  by (simp add: parseArgs_def)

lemma createSWCConfig_empty_dir:
  "createSWCConfig (env_convert quiet_env)
     (project [(''src'', Dir [])] NoTsconfig (Some [(''name'', JStr ''pkg'')])) JNull mt
     (JStr ''src'') =
   Inr [(''jsc'',
          JObj [(''parser'',
                  JObj [(''syntax'', JStr ''ecmascript''), (''tsx'', JBool False),
                        (''jsx'', JBool False), (''decorators'', JBool False)]),
                (''target'', JStr ''es2020''), (''loose'', JBool False),
                (''externalHelpers'', JBool False)]),
        (''module'', JObj [(''type'', JStr (module_text mt))]),
        (''sourceMaps'', JBool True)]"
  by (simp add: createSWCConfig_def project_def quiet_env_def or_else_def)

lemma build_outputs_empty_dir:
  "build_outputs quiet_env default_args JNull (JStr ''src'')
     (project [(''src'', Dir [])] NoTsconfig (Some [(''name'', JStr ''pkg'')])) =
   (None, (project [(''src'', Dir [])] NoTsconfig (Some [(''name'', JStr ''pkg'')]))
      \<lparr>temp := Some
         [(''cjs.swcrc'',
           JObj [(''jsc'',
                   JObj [(''parser'',
                           JObj [(''syntax'', JStr ''ecmascript''), (''tsx'', JBool False),
                                 (''jsx'', JBool False), (''decorators'', JBool False)]),
                         (''target'', JStr ''es2020''), (''loose'', JBool False),
                         (''externalHelpers'', JBool False)]),
                 (''module'', JObj [(''type'', JStr ''commonjs'')]),
                 (''sourceMaps'', JBool True)]),
          (''esm.swcrc'',
           JObj [(''jsc'',
                   JObj [(''parser'',
                           JObj [(''syntax'', JStr ''ecmascript''), (''tsx'', JBool False),
                                 (''jsx'', JBool False), (''decorators'', JBool False)]),
                         (''target'', JStr ''es2020''), (''loose'', JBool False),
                         (''externalHelpers'', JBool False)]),
                 (''module'', JObj [(''type'', JStr ''es6'')]),
                 (''sourceMaps'', JBool True)])]\<rparr>)"
proof -
  have no_dist: "\<not> fileExists (project [(''src'', Dir [])] NoTsconfig (Some [(''name'', JStr ''pkg'')]))
      (map_option JStr (cli_outDir default_args))"
    by (simp add: default_args_def project_def)
  show ?thesis
    unfolding build_outputs_def
    by (simp add: no_dist and_then_def createSWCConfig_empty_dir)
      (simp add: createTempSWCConfig_def attempt_def and_then_def quiet_env_def default_args_def
        project_def)
qed

theorem empty_entry_points_fail_before_write_witness:
  "parseArgs [] = Inr default_args \<and>
   detectEntryPoints (project [(''src'', Dir [])] NoTsconfig (Some [(''name'', JStr ''pkg'')]))
     (JStr ''src'') = Inr [] \<and>
   (\<exists>w. fst (build_outputs quiet_env default_args JNull (JStr ''src'')
              (project [(''src'', Dir [])] NoTsconfig (Some [(''name'', JStr ''pkg'')]))) = None \<and>
        snd (build_outputs quiet_env default_args JNull (JStr ''src'')
              (project [(''src'', Dir [])] NoTsconfig (Some [(''name'', JStr ''pkg'')]))) = w \<and>
        package_json w = Some [(''name'', JStr ''pkg'')] \<and>
        updatePackageJsonExports [] (Some ''dist'') False w = (Some InvalidArgType, w) \<and>
        main quiet_env [] (project [(''src'', Dir [])] NoTsconfig (Some [(''name'', JStr ''pkg'')])) =
          CompilationFailed InvalidArgType w) \<and>
   exit_status
     (main quiet_env [] (project [(''src'', Dir [])] NoTsconfig (Some [(''name'', JStr ''pkg'')]))) =
     Some 1"
proof -
  let ?w0 = "project [(''src'', Dir [])] NoTsconfig (Some [(''name'', JStr ''pkg'')])"
  obtain w where w: "build_outputs quiet_env default_args JNull (JStr ''src'') ?w0 = (None, w)"
    and pj: "package_json w = Some [(''name'', JStr ''pkg'')]"
    using build_outputs_empty_dir by (simp add: project_def)
  have ts: "readTSConfig ?w0 = JNull"
    by (simp add: readTSConfig_def project_def)
  have dir: "detectSourceDir ?w0 JNull (cli_srcDir default_args) = JStr ''src''"
    by (simp add: detectSourceDir_def default_args_def project_def)
  have eps: "detectEntryPoints ?w0 (JStr ''src'') = Inr []"
    by (simp add: detectEntryPoints_def project_def)
  have flags: "\<not> cli_help default_args" "\<not> cli_version default_args"
    "cli_command default_args = Compile" "\<not> cli_dryRun default_args"
    by (simp_all add: default_args_def)
  have out: "cli_outDir default_args = Some ''dist''" "cli_noTypes default_args = False"
    by (simp_all add: default_args_def)
  from empty_entry_points_fail_before_write [of "[]" default_args ?w0 quiet_env w,
      OF parseArgs_nil flags] eps w pj
  show ?thesis
    by (simp add: ts dir out parseArgs_nil)
qed

text \<open>
  C7. When the source directory does not exist, \<open>detectEntryPoints\<close> throws the
  missing-source-directory error instead of returning a list; and a compile run whose
  detected source directory does not exist ends with that error in the handler of line 658,
  exit status 1, whatever the environment would have answered: no later step runs and
  nothing downgrades the error.
\<close>

theorem missing_source_dir_is_fatal:
  assumes "\<not> fileExists w (Some srcDir)"
  shows "detectEntryPoints w srcDir = Inl (SourceDirMissing srcDir) \<and>
         (\<forall>E argv args.
            parseArgs argv = Inr args \<and> \<not> cli_help args \<and> \<not> cli_version args \<and>
            cli_command args = Compile \<and>
            detectSourceDir w (readTSConfig w) (cli_srcDir args) = srcDir \<longrightarrow>
            main E argv w = Unexpected (SourceDirMissing srcDir) \<and>
            exit_status (main E argv w) = Some 1)"
proof -
  have detect: "detectEntryPoints w srcDir = Inl (SourceDirMissing srcDir)"
    using assms by (simp add: detectEntryPoints_def)
  have "main E argv w = Unexpected (SourceDirMissing srcDir)"
    if "parseArgs argv = Inr args" "\<not> cli_help args" "\<not> cli_version args"
      "cli_command args = Compile" "detectSourceDir w (readTSConfig w) (cli_srcDir args) = srcDir"
    for E argv args
    using that by (simp add: main_compile [OF that(1-4)] detect)
  with detect show ?thesis
    by simp
qed

lemma parseArgs_src_dir:
  "parseArgs [''--src-dir'', ''missingdir''] = Inr (default_args\<lparr>cli_srcDir := Some ''missingdir''\<rparr>)"
  by (simp add: parseArgs_def startsWith_def)

theorem missing_source_dir_is_fatal_witness:
  "\<not> fileExists (project [(''src'', Dir [])] NoTsconfig None) (Some (JStr ''missingdir'')) \<and>
   detectEntryPoints (project [(''src'', Dir [])] NoTsconfig None) (JStr ''missingdir'') =
     Inl (SourceDirMissing (JStr ''missingdir'')) \<and>
   main quiet_env [''--src-dir'', ''missingdir''] (project [(''src'', Dir [])] NoTsconfig None) =
     Unexpected (SourceDirMissing (JStr ''missingdir'')) \<and>
   exit_status
     (main quiet_env [''--src-dir'', ''missingdir''] (project [(''src'', Dir [])] NoTsconfig None)) =
     Some 1"
proof -
  let ?w = "project [(''src'', Dir [])] NoTsconfig None"
  let ?args = "default_args\<lparr>cli_srcDir := Some ''missingdir''\<rparr>"
  have h: "\<not> fileExists ?w (Some (JStr ''missingdir''))"
    by (simp add: project_def)
  have flags: "\<not> cli_help ?args" "\<not> cli_version ?args" "cli_command ?args = Compile"
    by (simp_all add: default_args_def)
  have dir: "detectSourceDir ?w (readTSConfig ?w) (cli_srcDir ?args) = JStr ''missingdir''"
    by (simp add: detectSourceDir_def)
  from missing_source_dir_is_fatal [OF h] parseArgs_src_dir flags dir
  have "detectEntryPoints ?w (JStr ''missingdir'') = Inl (SourceDirMissing (JStr ''missingdir''))"
    and "main quiet_env [''--src-dir'', ''missingdir''] ?w =
      Unexpected (SourceDirMissing (JStr ''missingdir'')) \<and>
      exit_status (main quiet_env [''--src-dir'', ''missingdir''] ?w) = Some 1"
    by blast+
  with h show ?thesis
    by simp
qed

section \<open>Source-directory detection\<close>

text \<open>
  C6, as stated, fails: the flag is tested for truthiness (line 238), so the value of
  \<^verbatim>\<open>--src-dir ""\<close> is present and is not returned; the \<^verbatim>\<open>rootDir\<close> of the configuration
  wins.
\<close>

theorem src_dir_flag_counterexample:
  "detectSourceDir (project [(''src'', Dir [])] NoTsconfig None)
     (JObj [(''compilerOptions'', JObj [(''rootDir'', JStr ''lib'')])]) (Some '''') =
   JStr ''lib''"
  by (simp add: detectSourceDir_def)

text \<open>
  C6, amended. \<open>detectSourceDir\<close> returns the value of the \<^verbatim>\<open>--src-dir\<close> flag when it is
  present and not the empty string, whatever the configuration and the file system hold;
  otherwise the configuration's \<^verbatim>\<open>compilerOptions.rootDir\<close> when that is truthy (for a
  string: not empty), whatever the file system holds; otherwise the first of \<^verbatim>\<open>src\<close>,
  \<^verbatim>\<open>lib\<close>, \<^verbatim>\<open>bin\<close> that exists, in that order; otherwise \<^verbatim>\<open>src\<close>.
\<close>

theorem detectSourceDir_precedence:
  "(flag \<noteq> [] \<longrightarrow> detectSourceDir w tsconfig (Some flag) = JStr flag) \<and>
   (srcDirArg = None \<or> srcDirArg = Some [] \<longrightarrow>
      (truthy (opt_prop (opt_prop (Some tsconfig) ''compilerOptions'') ''rootDir'') \<longrightarrow>
         Some (detectSourceDir w tsconfig srcDirArg) =
           opt_prop (opt_prop (Some tsconfig) ''compilerOptions'') ''rootDir'') \<and>
      (\<not> truthy (opt_prop (opt_prop (Some tsconfig) ''compilerOptions'') ''rootDir'') \<longrightarrow>
         (fs w ''src'' \<noteq> None \<longrightarrow> detectSourceDir w tsconfig srcDirArg = JStr ''src'') \<and>
         (fs w ''src'' = None \<and> fs w ''lib'' \<noteq> None \<longrightarrow>
            detectSourceDir w tsconfig srcDirArg = JStr ''lib'') \<and>
         (fs w ''src'' = None \<and> fs w ''lib'' = None \<and> fs w ''bin'' \<noteq> None \<longrightarrow>
            detectSourceDir w tsconfig srcDirArg = JStr ''bin'') \<and>
         (fs w ''src'' = None \<and> fs w ''lib'' = None \<and> fs w ''bin'' = None \<longrightarrow>
            detectSourceDir w tsconfig srcDirArg = JStr ''src'')))"
proof -
  have truthy_some: "truthy v \<Longrightarrow> Some (the v) = v" for v
    by (cases v) simp_all
  show ?thesis
    by (auto simp: detectSourceDir_def truthy_some)
qed

theorem detectSourceDir_precedence_witness:
  "detectSourceDir (project [(''src'', Dir []), (''lib'', Dir [])] NoTsconfig None)
     (JObj [(''compilerOptions'', JObj [(''rootDir'', JStr ''lib'')])]) (Some ''app'') =
     JStr ''app'' \<and>
   detectSourceDir (project [(''src'', Dir []), (''lib'', Dir [])] NoTsconfig None)
     (JObj [(''compilerOptions'', JObj [(''rootDir'', JStr ''lib'')])]) None = JStr ''lib'' \<and>
   detectSourceDir (project [(''lib'', Dir []), (''bin'', Dir [])] NoTsconfig None) JNull None =
     JStr ''lib'' \<and>
   detectSourceDir (project [(''bin'', Dir [])] NoTsconfig None) JNull None = JStr ''bin'' \<and>
   detectSourceDir (project [] NoTsconfig None) JNull None = JStr ''src''"
proof -
  let ?ts = "JObj [(''compilerOptions'', JObj [(''rootDir'', JStr ''lib'')])]"
  have a: "detectSourceDir (project [(''src'', Dir []), (''lib'', Dir [])] NoTsconfig None)
      ?ts (Some ''app'') = JStr ''app''"
    using detectSourceDir_precedence
      [of "''app''" "project [(''src'', Dir []), (''lib'', Dir [])] NoTsconfig None" ?ts None]
    by simp
  have b: "detectSourceDir (project [(''src'', Dir []), (''lib'', Dir [])] NoTsconfig None)
      ?ts None = JStr ''lib''"
    using detectSourceDir_precedence
      [of "''app''" "project [(''src'', Dir []), (''lib'', Dir [])] NoTsconfig None" ?ts None]
    by simp
  have c: "detectSourceDir (project [(''lib'', Dir []), (''bin'', Dir [])] NoTsconfig None)
      JNull None = JStr ''lib''"
    using detectSourceDir_precedence
      [of "''app''" "project [(''lib'', Dir []), (''bin'', Dir [])] NoTsconfig None" JNull None]
    by (simp add: project_def)
  have d: "detectSourceDir (project [(''bin'', Dir [])] NoTsconfig None) JNull None = JStr ''bin''"
    using detectSourceDir_precedence
      [of "''app''" "project [(''bin'', Dir [])] NoTsconfig None" JNull None]
    by (simp add: project_def)
  have e: "detectSourceDir (project [] NoTsconfig None) JNull None = JStr ''src''"
    using detectSourceDir_precedence [of "''app''" "project [] NoTsconfig None" JNull None]
    by (simp add: project_def)
  from a b c d e show ?thesis
    by simp
qed

section \<open>The two compiler configurations\<close>

lemma update_present_swap:
  "k \<noteq> k' \<Longrightarrow> k \<in> fst ` set al \<Longrightarrow>
   AList.update k v (AList.update k' v' al) = AList.update k' v' (AList.update k v al)"
  by (induction al) auto

lemma update_key_present: "k \<in> fst ` set (AList.update k v al)"
  by (simp add: AList.dom_update)

lemma overwrite_after_one:
  assumes "k \<noteq> a"
  shows "AList.update k v (AList.update a x (AList.update k u al)) =
         AList.update a x (AList.update k v al)"
proof -
  have "AList.update k v (AList.update a x (AList.update k u al)) =
        AList.update a x (AList.update k v (AList.update k u al))"
    by (rule update_present_swap [OF assms update_key_present])
  then show ?thesis by simp
qed

lemma overwrite_after_two:
  assumes "k \<noteq> a" and "k \<noteq> b"
  shows "AList.update k v (AList.update b y (AList.update a x (AList.update k u al))) =
         AList.update b y (AList.update a x (AList.update k v al))"
proof -
  have "k \<in> fst ` set (AList.update a x (AList.update k u al))"
    by (simp add: AList.dom_update)
  then have "AList.update k v (AList.update b y (AList.update a x (AList.update k u al))) =
        AList.update b y (AList.update k v (AList.update a x (AList.update k u al)))"
    by (rule update_present_swap [OF assms(2)])
  then show ?thesis by (simp add: overwrite_after_one [OF assms(1)])
qed

text \<open>
  C4. For every configuration value, source directory, world and converter, the two calls
  of \<open>createSWCConfig\<close> of lines 616-617 either both throw the same error (the source
  directory is not a directory) or give two configurations whose \<^verbatim>\<open>module\<close> fields are
  \<^verbatim>\<open>{type: "commonjs"}\<close> and \<^verbatim>\<open>{type: "es6"}\<close> and which are the same object, field by
  field and in the same order, once \<^verbatim>\<open>module\<close> is overwritten by any one value.
\<close>

theorem swc_configs_differ_only_in_module_type:
  "(\<exists>e. createSWCConfig convert w tsconfig CommonJS srcDir = Inl e \<and>
        createSWCConfig convert w tsconfig ES6 srcDir = Inl e) \<or>
   (\<exists>cjsConfig esmConfig.
      createSWCConfig convert w tsconfig CommonJS srcDir = Inr cjsConfig \<and>
      createSWCConfig convert w tsconfig ES6 srcDir = Inr esmConfig \<and>
      map_of cjsConfig ''module'' = Some (JObj [(''type'', JStr ''commonjs'')]) \<and>
      map_of esmConfig ''module'' = Some (JObj [(''type'', JStr ''es6'')]) \<and>
      (\<forall>v. AList.update ''module'' v cjsConfig = AList.update ''module'' v esmConfig))"
proof (cases "if fileExists w (Some srcDir) then list_files w srcDir else Inr []")
  case (Inl e)
  then show ?thesis
    by (simp add: createSWCConfig_def)
next
  case (Inr files)
  then show ?thesis
    by (simp add: createSWCConfig_def Let_def AList.update_conv' overwrite_after_one
        overwrite_after_two)
qed

section \<open>A value-taking flag as the last token\<close>

lemma parseArgs_trailing_out_dir:
  "parseArgs [''--out-dir''] = Inr (default_args\<lparr>cli_outDir := None\<rparr>)"
  by (simp add: parseArgs_def startsWith_def)

lemma build_outputs_quiet:
  assumes "\<not> fileExists w (map_option JStr (cli_outDir args))"
    and "createSWCConfig (env_convert quiet_env) w tsconfig CommonJS srcDir = Inr cjsConfig"
    and "createSWCConfig (env_convert quiet_env) w tsconfig ES6 srcDir = Inr esmConfig"
  shows "build_outputs quiet_env args tsconfig srcDir w =
     (None, w\<lparr>temp := Some (AList.update ''esm.swcrc'' (written (JObj esmConfig))
                (AList.update ''cjs.swcrc'' (written (JObj cjsConfig))
                   (case temp w of None \<Rightarrow> [] | Some t \<Rightarrow> t)))\<rparr>)"
  unfolding build_outputs_def
  by (simp add: assms and_then_def)
    (simp add: createTempSWCConfig_def attempt_def and_then_def quiet_env_def
      ensureTypeScriptInstalled_def hasTypeScriptInstalled_def performTypeCheck_def
      split: option.splits)

lemma createSWCConfig_index_ts:
  "createSWCConfig (env_convert quiet_env)
     (project [(''src'', Dir [\<lparr>d_name = ''index.ts'', d_isFile = True\<rparr>])] NoTsconfig
        (Some [(''name'', JStr ''pkg'')])) JNull mt (JStr ''src'') =
   Inr [(''jsc'',
          JObj [(''parser'',
                  JObj [(''syntax'', JStr ''typescript''), (''tsx'', JBool False),
                        (''jsx'', JBool False), (''decorators'', JBool False)]),
                (''target'', JStr ''es2020''), (''loose'', JBool False),
                (''externalHelpers'', JBool False)]),
        (''module'', JObj [(''type'', JStr (module_text mt))]),
        (''sourceMaps'', JBool True)]"
  by (simp add: createSWCConfig_def project_def quiet_env_def or_else_def endsWith_def
      suffix_to_prefix)

text \<open>
  C8. The code at the failing input: \<^verbatim>\<open>--out-dir\<close> as the last token sets \<open>outDir\<close> to
  \<^verbatim>\<open>undefined\<close> in place of its default \<^verbatim>\<open>dist\<close>, and the run builds its paths from the
  text \<^verbatim>\<open>undefined\<close>: the compiler writes to \<^verbatim>\<open>undefined/cjs\<close> and the manifest points
  there. A trailing \<^verbatim>\<open>--src-dir\<close> leaves the arguments at their defaults.
\<close>

theorem trailing_out_dir_is_undefined:
  "parseArgs [''--src-dir''] = Inr default_args \<and>
   parseArgs [''--out-dir''] = Inr (default_args\<lparr>cli_outDir := None\<rparr>) \<and>
   swc_command (JStr ''src'') (cli_outDir (default_args\<lparr>cli_outDir := None\<rparr>)) ''cjs''
     ''.temp/cjs.swcrc'' =
     ''npx swc src -d undefined/cjs --config-file .temp/cjs.swcrc --strip-leading-paths'' \<and>
   main quiet_env [''--out-dir'']
     (project [(''src'', Dir [\<lparr>d_name = ''index.ts'', d_isFile = True\<rparr>])] NoTsconfig
        (Some [(''name'', JStr ''pkg'')])) =
   Complete
     (project [(''src'', Dir [\<lparr>d_name = ''index.ts'', d_isFile = True\<rparr>])] NoTsconfig
        (Some [(''name'', JStr ''pkg''),
               (''main'', JStr ''./undefined/cjs/index.js''),
               (''module'', JStr ''./undefined/esm/index.js''),
               (''types'', JStr ''./undefined/types/index.d.ts''),
               (''exports'',
                 JObj [(''.'',
                        JObj [(''import'', JStr ''./undefined/esm/index.js''),
                              (''require'', JStr ''./undefined/cjs/index.js''),
                              (''types'', JStr ''./undefined/types/index.d.ts'')])]),
               (''files'', JArr [JNull])]))"
proof -
  let ?w = "project [(''src'', Dir [\<lparr>d_name = ''index.ts'', d_isFile = True\<rparr>])] NoTsconfig
        (Some [(''name'', JStr ''pkg'')])"
  let ?args = "default_args\<lparr>cli_outDir := None\<rparr>"
  have flags: "\<not> cli_help ?args" "\<not> cli_version ?args" "cli_command ?args = Compile"
    "\<not> cli_dryRun ?args" "cli_srcDir ?args = None" "cli_outDir ?args = None"
    "\<not> cli_noTypes ?args"
    by (simp_all add: default_args_def)
  have ts: "readTSConfig ?w = JNull"
    by (simp add: readTSConfig_def project_def)
  have dir: "detectSourceDir ?w JNull None = JStr ''src''"
    by (simp add: detectSourceDir_def project_def)
  have eps: "detectEntryPoints ?w (JStr ''src'') = Inr [''index.ts'']"
    by (simp add: detectEntryPoints_def project_def eligible_def endsWith_def suffix_to_prefix
        startsWith_def)
  have no_out: "\<not> fileExists ?w (map_option JStr (cli_outDir ?args))"
    by (simp add: flags)
  have built: "build_outputs quiet_env ?args JNull (JStr ''src'') ?w =
      (None, ?w\<lparr>temp := Some (AList.update ''esm.swcrc''
          (JObj [(''jsc'',
          JObj [(''parser'',
                  JObj [(''syntax'', JStr ''typescript''), (''tsx'', JBool False),
                        (''jsx'', JBool False), (''decorators'', JBool False)]),
                (''target'', JStr ''es2020''), (''loose'', JBool False),
                (''externalHelpers'', JBool False)]),
        (''module'', JObj [(''type'', JStr (module_text ES6))]),
        (''sourceMaps'', JBool True)])
          (AList.update ''cjs.swcrc''
             (JObj [(''jsc'',
          JObj [(''parser'',
                  JObj [(''syntax'', JStr ''typescript''), (''tsx'', JBool False),
                        (''jsx'', JBool False), (''decorators'', JBool False)]),
                (''target'', JStr ''es2020''), (''loose'', JBool False),
                (''externalHelpers'', JBool False)]),
        (''module'', JObj [(''type'', JStr (module_text CommonJS))]),
        (''sourceMaps'', JBool True)])
             (case temp ?w of None \<Rightarrow> [] | Some t \<Rightarrow> t)))\<rparr>)"
    using build_outputs_quiet [OF no_out createSWCConfig_index_ts createSWCConfig_index_ts]
    by simp
  have cmd: "swc_command (JStr ''src'') (cli_outDir ?args) ''cjs'' ''.temp/cjs.swcrc'' =
      ''npx swc src -d undefined/cjs --config-file .temp/cjs.swcrc --strip-leading-paths''"
    by (simp add: swc_command_def flags)
  have run: "main quiet_env [''--out-dir''] ?w =
      Complete (project [(''src'', Dir [\<lparr>d_name = ''index.ts'', d_isFile = True\<rparr>])] NoTsconfig
        (Some [(''name'', JStr ''pkg''),
               (''main'', JStr ''./undefined/cjs/index.js''),
               (''module'', JStr ''./undefined/esm/index.js''),
               (''types'', JStr ''./undefined/types/index.d.ts''),
               (''exports'',
                 JObj [(''.'',
                        JObj [(''import'', JStr ''./undefined/esm/index.js''),
                              (''require'', JStr ''./undefined/cjs/index.js''),
                              (''types'', JStr ''./undefined/types/index.d.ts'')])]),
               (''files'', JArr [JNull])]))"
    unfolding main_compile [OF parseArgs_trailing_out_dir flags(1-3)]
    by (simp add: flags ts dir eps compile_steps_def built and_then_def)
      (simp add: updatePackageJsonExports_def rewrite_manifest_def project_def startsWith_def
        export_entry_def set_main_def set_files_def cjs_path_def esm_path_def types_path_def
        name_index_ts cleanupTempConfigs_def written_obj_def Let_def)
  have src: "parseArgs [''--src-dir''] = Inr default_args"
    by (simp add: parseArgs_def startsWith_def default_args_def)
  from src parseArgs_trailing_out_dir cmd run show ?thesis
    by simp
qed

end
